theory Spec2Isabelle
  imports Complex_Main "HOL-Library.Product_Lexorder" "HOL-Library.Multiset"
begin

section \<open>The persisted state: tables of the schema\<close>

text \<open>
  The tables are those of the schema script and of the vector-search migration. A table is
  the list of its rows in some order of storage; SQL itself fixes no order of a table, of
  a join, or of rows that a sort key does not tell apart.
  Row-level security is applied by the server before a function body sees a table: the
  lists are the rows visible to the calling role (all rows for a role that bypasses the
  policies, as the service role of a backend does).

  A column without \<open>NOT NULL\<close> is an \<open>option\<close> (\<open>None\<close> is SQL NULL). \<open>uuid\<close> values are
  opaque identifiers, timestamps are instants; both are numbers here. \<open>vector(1536)\<close> is the
  type parameter \<open>'v\<close>: the vector type and its operator \<open><=>\<close> belong to the pgvector
  extension and are taken as a parameter.
\<close>

type_synonym uuid = nat
type_synonym timestamptz = nat
type_synonym jsonb = string

record org =
  o_id :: uuid
  o_name :: string
  o_created_at :: "timestamptz option"

record document =
  d_id :: uuid
  d_org_id :: uuid
  d_uploaded_by :: "uuid option"
  d_storage_bucket :: "string option"
  d_storage_path :: string
  d_filename :: string
  d_mime_type :: string
  d_size_bytes :: int
  d_status :: "string option"
  d_error_message :: "string option"
  d_created_at :: "timestamptz option"
  d_updated_at :: "timestamptz option"

record 'v document_chunk =
  dc_id :: uuid
  dc_org_id :: uuid
  dc_document_id :: uuid
  dc_chunk_index :: int
  dc_text :: string
  dc_metadata :: "jsonb option"
  dc_embedding :: "'v option"
  dc_created_at :: "timestamptz option"

record chat_session =
  cs_id :: uuid
  cs_org_id :: uuid
  cs_user_id :: "uuid option"
  cs_title :: "string option"
  cs_created_at :: "timestamptz option"
  cs_updated_at :: "timestamptz option"

record feedback =
  fb_id :: uuid
  fb_session_id :: "uuid option"
  fb_message_id :: "uuid option"
  fb_score :: int
  fb_comment :: "string option"
  fb_created_at :: timestamptz

record 'v database =
  orgs :: "org list"
  documents :: "document list"
  document_chunks :: "'v document_chunk list"
  chat_sessions :: "chat_session list"
  chat_feedback :: "feedback list"

datatype sql_error =
  negative_limit
  | not_null_violation
  | check_violation
  | foreign_key_violation
  | unique_violation

section \<open>SQL expressions: three-valued logic and strict operators\<close>

text \<open>
  A Boolean SQL expression has three values: \<open>Some True\<close>, \<open>Some False\<close> and \<open>None\<close>
  (unknown). Comparison and arithmetic operators, and \<open><=>\<close>, are strict: NULL on either
  side gives NULL. A \<open>WHERE\<close> clause keeps a row only when its condition is true.
\<close>

type_synonym sql_bool = "bool option"

fun sql_and :: "sql_bool \<Rightarrow> sql_bool \<Rightarrow> sql_bool" where
  "sql_and (Some False) _ = Some False"
| "sql_and _ (Some False) = Some False"
| "sql_and (Some True) (Some True) = Some True"
| "sql_and _ _ = None"

fun sql_or :: "sql_bool \<Rightarrow> sql_bool \<Rightarrow> sql_bool" where
  "sql_or (Some True) _ = Some True"
| "sql_or _ (Some True) = Some True"
| "sql_or (Some False) (Some False) = Some False"
| "sql_or _ _ = None"

fun sql_eq :: "'a option \<Rightarrow> 'a option \<Rightarrow> sql_bool" where
  "sql_eq (Some x) (Some y) = Some (x = y)"
| "sql_eq _ _ = None"

fun sql_gt :: "real option \<Rightarrow> real option \<Rightarrow> sql_bool" where
  "sql_gt (Some x) (Some y) = Some (x > y)"
| "sql_gt _ _ = None"

fun sql_minus :: "real option \<Rightarrow> real option \<Rightarrow> real option" where
  "sql_minus (Some x) (Some y) = Some (x - y)"
| "sql_minus _ _ = None"

fun is_null :: "'a option \<Rightarrow> sql_bool" where
  "is_null None = Some True"
| "is_null (Some _) = Some False"

fun is_not_null :: "'a option \<Rightarrow> sql_bool" where
  "is_not_null None = Some False"
| "is_not_null (Some _) = Some True"

definition is_true :: "sql_bool \<Rightarrow> bool" where
  "is_true c = (c = Some True)"

text \<open>The operator \<open><=>\<close> (cosine distance), lifted to nullable operands.\<close>

fun cosine_distance :: "('v \<Rightarrow> 'v \<Rightarrow> real) \<Rightarrow> 'v option \<Rightarrow> 'v option \<Rightarrow> real option" where
  "cosine_distance cd (Some a) (Some b) = Some (cd a b)"
| "cosine_distance cd _ _ = None"

text \<open>
  \<open>ORDER BY e\<close> sorts ascending with NULLs last. The sort key puts a flag in front of the
  value, so that the lexicographic order on pairs is that order. SQL leaves the order of
  rows with equal keys open: \<open>ordered_by\<close> is the relation between the rows and every order
  a server may return them in. \<open>order_by\<close> computes one of these orders, the one a stable
  sort of the scan gives; nothing is claimed of a server's choice among them.
\<close>

fun nulls_last :: "real option \<Rightarrow> bool \<times> real" where
  "nulls_last None = (True, 0)"
| "nulls_last (Some x) = (False, x)"

definition order_by :: "('a \<Rightarrow> real option) \<Rightarrow> 'a list \<Rightarrow> 'a list" where
  "order_by e rows = sort_key (\<lambda>r. nulls_last (e r)) rows"

definition ordered_by :: "('a \<Rightarrow> real option) \<Rightarrow> 'a list \<Rightarrow> 'a list \<Rightarrow> bool" where
  "ordered_by e rows out \<longleftrightarrow>
     mset out = mset rows \<and> sorted (map (\<lambda>r. nulls_last (e r)) out)"

text \<open>
  \<open>LIMIT n\<close>: NULL means no limit, a negative count is the error
  ``LIMIT must not be negative''.
\<close>

definition limit :: "int option \<Rightarrow> 'a list \<Rightarrow> sql_error + 'a list" where
  "limit n rows =
     (case n of
        None \<Rightarrow> Inr rows
      | Some k \<Rightarrow> if k < 0 then Inl negative_limit else Inr (take (nat k) rows))"

section \<open>Similarity search: the two definitions of \<open>match_documents\<close>\<close>

record schema_match =
  sm_id :: uuid
  sm_document_id :: uuid
  sm_chunk_index :: int
  sm_text :: string
  sm_metadata :: "jsonb option"
  sm_similarity :: "real option"

record migration_match =
  mm_id :: uuid
  mm_document_id :: uuid
  mm_text :: string
  mm_metadata :: "jsonb option"
  mm_similarity :: "real option"
  mm_filename :: string

text \<open>The expression \<open>1 - (dc.embedding <=> query_embedding)\<close> of both definitions.\<close>

definition similarity ::
  "('v \<Rightarrow> 'v \<Rightarrow> real) \<Rightarrow> 'v option \<Rightarrow> 'v document_chunk \<Rightarrow> real option" where
  "similarity cd query_embedding dc =
     sql_minus (Some 1) (cosine_distance cd (dc_embedding dc) query_embedding)"

subsection \<open>The schema script's definition\<close>

definition schema_where ::
  "('v \<Rightarrow> 'v \<Rightarrow> real) \<Rightarrow> 'v option \<Rightarrow> real option \<Rightarrow> uuid option \<Rightarrow> 'v document_chunk \<Rightarrow> sql_bool" where
  "schema_where cd query_embedding match_threshold filter_org_id dc =
     sql_and
       (sql_and (sql_eq (Some (dc_org_id dc)) filter_org_id) (is_not_null (dc_embedding dc)))
       (sql_gt (similarity cd query_embedding dc) match_threshold)"

definition schema_select :: "('v \<Rightarrow> 'v \<Rightarrow> real) \<Rightarrow> 'v option \<Rightarrow> 'v document_chunk \<Rightarrow> schema_match" where
  "schema_select cd query_embedding dc =
     \<lparr>sm_id = dc_id dc,
      sm_document_id = dc_document_id dc,
      sm_chunk_index = dc_chunk_index dc,
      sm_text = dc_text dc,
      sm_metadata = dc_metadata dc,
      sm_similarity = similarity cd query_embedding dc\<rparr>"

definition schema_rows ::
  "('v \<Rightarrow> 'v \<Rightarrow> real) \<Rightarrow> 'v database \<Rightarrow> 'v option \<Rightarrow> real option \<Rightarrow> uuid option \<Rightarrow> 'v document_chunk list" where
  "schema_rows cd db query_embedding match_threshold filter_org_id =
     order_by (\<lambda>dc. cosine_distance cd (dc_embedding dc) query_embedding)
       (filter (\<lambda>dc. is_true (schema_where cd query_embedding match_threshold filter_org_id dc))
          (document_chunks db))"

definition match_documents_schema ::
  "('v \<Rightarrow> 'v \<Rightarrow> real) \<Rightarrow> 'v database \<Rightarrow> 'v option \<Rightarrow> real option \<Rightarrow> int option \<Rightarrow> uuid option
     \<Rightarrow> sql_error + schema_match list" where
  "match_documents_schema cd db query_embedding match_threshold match_count filter_org_id =
     map_sum id (map (schema_select cd query_embedding))
       (limit match_count (schema_rows cd db query_embedding match_threshold filter_org_id))"

subsection \<open>The migration's definition\<close>

text \<open>\<open>document_chunks dc join documents d on dc.document_id = d.id\<close>, chunk by chunk.\<close>

definition chunks_join_documents :: "'v database \<Rightarrow> ('v document_chunk \<times> document) list" where
  "chunks_join_documents db =
     concat (map (\<lambda>dc. map (Pair dc) (filter (\<lambda>d. dc_document_id dc = d_id d) (documents db)))
       (document_chunks db))"

definition migration_where ::
  "('v \<Rightarrow> 'v \<Rightarrow> real) \<Rightarrow> 'v option \<Rightarrow> real option \<Rightarrow> uuid option \<Rightarrow> 'v document_chunk \<times> document \<Rightarrow> sql_bool" where
  "migration_where cd query_embedding match_threshold filter_org_id row =
     (case row of (dc, d) \<Rightarrow>
        sql_and
          (sql_gt (similarity cd query_embedding dc) match_threshold)
          (sql_or (is_null filter_org_id) (sql_eq (Some (d_org_id d)) filter_org_id)))"

definition migration_select ::
  "('v \<Rightarrow> 'v \<Rightarrow> real) \<Rightarrow> 'v option \<Rightarrow> 'v document_chunk \<times> document \<Rightarrow> migration_match" where
  "migration_select cd query_embedding row =
     (case row of (dc, d) \<Rightarrow>
        \<lparr>mm_id = dc_id dc,
         mm_document_id = dc_document_id dc,
         mm_text = dc_text dc,
         mm_metadata = dc_metadata dc,
         mm_similarity = similarity cd query_embedding dc,
         mm_filename = d_filename d\<rparr>)"

definition migration_rows ::
  "('v \<Rightarrow> 'v \<Rightarrow> real) \<Rightarrow> 'v database \<Rightarrow> 'v option \<Rightarrow> real option \<Rightarrow> uuid option
     \<Rightarrow> ('v document_chunk \<times> document) list" where
  "migration_rows cd db query_embedding match_threshold filter_org_id =
     order_by (\<lambda>row. cosine_distance cd (dc_embedding (fst row)) query_embedding)
       (filter (\<lambda>row. is_true (migration_where cd query_embedding match_threshold filter_org_id row))
          (chunks_join_documents db))"

definition match_documents_migration ::
  "('v \<Rightarrow> 'v \<Rightarrow> real) \<Rightarrow> 'v database \<Rightarrow> 'v option \<Rightarrow> real option \<Rightarrow> int option \<Rightarrow> uuid option
     \<Rightarrow> sql_error + migration_match list" where
  "match_documents_migration cd db query_embedding match_threshold match_count filter_org_id =
     map_sum id (map (migration_select cd query_embedding))
       (limit match_count (migration_rows cd db query_embedding match_threshold filter_org_id))"

subsection \<open>The results a call may return\<close>

text \<open>
  Neither definition has a second sort key, and a join has no order of its own, so a call
  may return the selected rows in any order that ascends in distance. \<open>schema_admits\<close> and
  \<open>migration_admits\<close> say that a list is such an order of the rows selected by the
  \<open>WHERE\<close> clause; \<open>schema_result\<close> and \<open>migration_result\<close> are what the call returns for it
  after \<open>LIMIT\<close> and the projection. \<open>match_documents_schema\<close> and
  \<open>match_documents_migration\<close> above are the results for one admitted order.
\<close>

definition schema_admits ::
  "('v \<Rightarrow> 'v \<Rightarrow> real) \<Rightarrow> 'v database \<Rightarrow> 'v option \<Rightarrow> real option \<Rightarrow> uuid option
     \<Rightarrow> 'v document_chunk list \<Rightarrow> bool" where
  "schema_admits cd db query_embedding match_threshold filter_org_id rows =
     ordered_by (\<lambda>dc. cosine_distance cd (dc_embedding dc) query_embedding)
       (filter (\<lambda>dc. is_true (schema_where cd query_embedding match_threshold filter_org_id dc))
          (document_chunks db))
       rows"

definition schema_result ::
  "('v \<Rightarrow> 'v \<Rightarrow> real) \<Rightarrow> 'v option \<Rightarrow> int option \<Rightarrow> 'v document_chunk list
     \<Rightarrow> sql_error + schema_match list" where
  "schema_result cd query_embedding match_count rows =
     map_sum id (map (schema_select cd query_embedding)) (limit match_count rows)"

definition migration_admits ::
  "('v \<Rightarrow> 'v \<Rightarrow> real) \<Rightarrow> 'v database \<Rightarrow> 'v option \<Rightarrow> real option \<Rightarrow> uuid option
     \<Rightarrow> ('v document_chunk \<times> document) list \<Rightarrow> bool" where
  "migration_admits cd db query_embedding match_threshold filter_org_id rows =
     ordered_by (\<lambda>row. cosine_distance cd (dc_embedding (fst row)) query_embedding)
       (filter (\<lambda>row. is_true (migration_where cd query_embedding match_threshold filter_org_id row))
          (chunks_join_documents db))
       rows"

definition migration_result ::
  "('v \<Rightarrow> 'v \<Rightarrow> real) \<Rightarrow> 'v option \<Rightarrow> int option \<Rightarrow> ('v document_chunk \<times> document) list
     \<Rightarrow> sql_error + migration_match list" where
  "migration_result cd query_embedding match_count rows =
     map_sum id (map (migration_select cd query_embedding)) (limit match_count rows)"

section \<open>Constraints of the tables\<close>

text \<open>
  An \<open>INSERT\<close>, \<open>UPDATE\<close> or \<open>DELETE\<close> is one atomic statement: it returns the new state,
  or an error and no new state. Values that a column default generates
  (\<open>gen_random_uuid()\<close>, \<open>NOW()\<close>) are arguments. The constraints of a row are checked in
  the server's order: \<open>NOT NULL\<close> and \<open>CHECK\<close>, then the primary key, then the foreign
  keys. A \<open>CHECK\<close> rejects a row only when its condition is false: an unknown condition
  passes. The foreign keys into \<open>auth.users\<close> point outside this schema and are not checked
  here.
\<close>

datatype 'a column_value = DEFAULT | VALUE 'a

definition check_passes :: "sql_bool \<Rightarrow> bool" where
  "check_passes c = (c \<noteq> Some False)"

fun sql_in :: "'a option \<Rightarrow> 'a list \<Rightarrow> sql_bool" where
  "sql_in None xs = None"
| "sql_in (Some x) xs = Some (x \<in> set xs)"

subsection \<open>\<open>documents\<close> and \<open>document_chunks\<close>\<close>

definition status_values :: "string list" where
  "status_values = [''uploaded'', ''processing'', ''indexed'', ''failed'']"

text \<open>\<open>CHECK (status IN ('uploaded', 'processing', 'indexed', 'failed'))\<close>\<close>

definition documents_status_check :: "string option \<Rightarrow> bool" where
  "documents_status_check st = check_passes (sql_in st status_values)"

record document_values =
  dv_org_id :: "uuid option"
  dv_uploaded_by :: "uuid option"
  dv_storage_bucket :: "string option column_value"
  dv_storage_path :: "string option"
  dv_filename :: "string option"
  dv_mime_type :: "string option"
  dv_size_bytes :: "int option"
  dv_status :: "string option column_value"
  dv_error_message :: "string option"

definition insert_document ::
  "uuid \<Rightarrow> timestamptz \<Rightarrow> document_values \<Rightarrow> 'v database \<Rightarrow> sql_error + 'v database" where
  "insert_document new_id now v db =
     (case (dv_org_id v, dv_storage_path v, dv_filename v, dv_mime_type v, dv_size_bytes v) of
        (Some org_id, Some storage_path, Some filename, Some mime_type, Some size_bytes) \<Rightarrow>
          (let status = (case dv_status v of DEFAULT \<Rightarrow> Some ''uploaded'' | VALUE x \<Rightarrow> x);
               storage_bucket = (case dv_storage_bucket v of DEFAULT \<Rightarrow> Some ''docs'' | VALUE x \<Rightarrow> x)
           in if \<not> documents_status_check status then Inl check_violation
              else if new_id \<in> set (map d_id (documents db)) then Inl unique_violation
              else if org_id \<notin> set (map o_id (orgs db)) then Inl foreign_key_violation
              else Inr (db\<lparr>documents := documents db @
                     [\<lparr>d_id = new_id,
                       d_org_id = org_id,
                       d_uploaded_by = dv_uploaded_by v,
                       d_storage_bucket = storage_bucket,
                       d_storage_path = storage_path,
                       d_filename = filename,
                       d_mime_type = mime_type,
                       d_size_bytes = size_bytes,
                       d_status = status,
                       d_error_message = dv_error_message v,
                       d_created_at = Some now,
                       d_updated_at = Some now\<rparr>]\<rparr>))
      | _ \<Rightarrow> Inl not_null_violation)"

text \<open>
  \<open>UPDATE documents SET status = s WHERE id = x\<close>; the trigger
  \<open>update_documents_updated_at\<close> stamps each updated row.
\<close>

definition update_document_status ::
  "timestamptz \<Rightarrow> uuid \<Rightarrow> string option \<Rightarrow> 'v database \<Rightarrow> sql_error + 'v database" where
  "update_document_status now x s db =
     (if x \<in> set (map d_id (documents db)) \<and> \<not> documents_status_check s then Inl check_violation
      else Inr (db\<lparr>documents :=
             map (\<lambda>d. if d_id d = x then d\<lparr>d_status := s, d_updated_at := Some now\<rparr> else d)
               (documents db)\<rparr>))"

text \<open>
  \<open>DELETE FROM documents WHERE id = x\<close>, by a role that the delete policy admits.
  \<open>document_chunks.document_id\<close> references \<open>documents(id)\<close> with \<open>ON DELETE CASCADE\<close>: the
  chunks of a deleted document go in the same statement.
\<close>

definition delete_document :: "uuid \<Rightarrow> 'v database \<Rightarrow> 'v database" where
  "delete_document x db =
     (if x \<in> set (map d_id (documents db))
      then db\<lparr>documents := filter (\<lambda>d. d_id d \<noteq> x) (documents db),
              document_chunks := filter (\<lambda>dc. dc_document_id dc \<noteq> x) (document_chunks db)\<rparr>
      else db)"

text \<open>The foreign key \<open>document_chunks.document_id \<rightarrow> documents.id\<close> as a state invariant.\<close>

definition chunks_have_documents :: "'v database \<Rightarrow> bool" where
  "chunks_have_documents db =
     list_all (\<lambda>dc. dc_document_id dc \<in> set (map d_id (documents db))) (document_chunks db)"

subsection \<open>\<open>chat_feedback\<close>\<close>

record feedback_values =
  fv_session_id :: "uuid option"
  fv_message_id :: "uuid option"
  fv_score :: "int option"
  fv_comment :: "string option"

definition insert_chat_feedback ::
  "uuid \<Rightarrow> timestamptz \<Rightarrow> feedback_values \<Rightarrow> 'v database \<Rightarrow> sql_error + 'v database" where
  "insert_chat_feedback new_id now v db =
     (case fv_score v of
        None \<Rightarrow> Inl not_null_violation
      | Some score \<Rightarrow>
          if \<not> (score \<ge> 1 \<and> score \<le> 5) then Inl check_violation
          else if new_id \<in> set (map fb_id (chat_feedback db)) then Inl unique_violation
          else if (case fv_session_id v of
                     None \<Rightarrow> False
                   | Some s \<Rightarrow> s \<notin> set (map cs_id (chat_sessions db)))
          then Inl foreign_key_violation
          else Inr (db\<lparr>chat_feedback := chat_feedback db @
                 [\<lparr>fb_id = new_id,
                   fb_session_id = fv_session_id v,
                   fb_message_id = fv_message_id v,
                   fb_score = score,
                   fb_comment = fv_comment v,
                   fb_created_at = now\<rparr>]\<rparr>))"

datatype feedback_error = InvalidFeedback | StoreError sql_error

text \<open>
  Modelled from the spec: \<open>record_feedback\<close>, the ledger operation of the Session and
  Feedback Store, is backend code that is not among the sources (only the table it writes
  and the client call \<open>submitFeedback(sessionId, score, comment)\<close> are). By the spec it
  takes a session, optionally a message, an integer score and an optional comment, and a
  score outside [1,5] is rejected with \<open>InvalidFeedback\<close>. It is modelled as the insert
  into \<open>chat_feedback\<close>, with the table's refusal of the score reported under the spec's
  name.
\<close>

definition record_feedback ::
  "uuid \<Rightarrow> timestamptz \<Rightarrow> uuid \<Rightarrow> uuid option \<Rightarrow> int \<Rightarrow> string option \<Rightarrow> 'v database
     \<Rightarrow> feedback_error + 'v database" where
  "record_feedback new_id now session_id message_id score comment db =
     (case insert_chat_feedback new_id now
             \<lparr>fv_session_id = Some session_id,
              fv_message_id = message_id,
              fv_score = Some score,
              fv_comment = comment\<rparr> db of
        Inl e \<Rightarrow> if e = check_violation then Inl InvalidFeedback else Inl (StoreError e)
      | Inr db' \<Rightarrow> Inr db')"

section \<open>The answerer\<close>

record cited_source =
  src_filename :: string
  src_locator :: "jsonb option"
  src_excerpt :: string

definition refusal_statement :: string where
  "refusal_statement = ''no explicit provision found in the regulatory corpus''"

definition unavailable_statement :: string where
  "unavailable_statement = ''temporarily unavailable''"

definition cite :: "migration_match \<Rightarrow> cited_source" where
  "cite r = \<lparr>src_filename = mm_filename r, src_locator = mm_metadata r, src_excerpt = mm_text r\<rparr>"

text \<open>
  Modelled from the spec: \<open>answer\<close>, the Retrieval-Augmented Answerer of section 4.5, is
  backend code that is not among the sources. By the spec it embeds the question,
  retrieves the top \<open>K\<close> chunks of the tenant above a fixed threshold, answers with the
  fixed refusal and no sources when nothing was retrieved, and otherwise gives the
  retrieved texts, the question and the last \<open>N\<close> turns to the generation provider; a
  provider failure (\<open>None\<close>) gives the ``temporarily unavailable'' answer. The embedding
  provider \<open>embed_query\<close>, the generation provider \<open>generate\<close> and the policy parameters are
  arguments; retrieval is the migration's \<open>match_documents\<close>, the one that returns the
  file name a citation needs.
\<close>

definition answer ::
  "('v \<Rightarrow> 'v \<Rightarrow> real) \<Rightarrow> (string \<Rightarrow> 'v) \<Rightarrow> (string list \<Rightarrow> string \<Rightarrow> 'h list \<Rightarrow> string option)
     \<Rightarrow> real \<Rightarrow> int \<Rightarrow> nat \<Rightarrow> 'v database \<Rightarrow> uuid \<Rightarrow> string \<Rightarrow> 'h list
     \<Rightarrow> sql_error + (string \<times> cited_source list)" where
  "answer cd embed_query generate threshold K N db tenant question conversation_history =
     (case match_documents_migration cd db (Some (embed_query question)) (Some threshold) (Some K)
             (Some tenant) of
        Inl e \<Rightarrow> Inl e
      | Inr retrieved \<Rightarrow>
          if retrieved = [] then Inr (refusal_statement, [])
          else (case generate (map mm_text retrieved) question
                       (drop (length conversation_history - N) conversation_history) of
                  None \<Rightarrow> Inr (unavailable_statement, [])
                | Some answer_text \<Rightarrow> Inr (answer_text, map cite retrieved)))"

section \<open>The chat page: \<open>handleSend\<close>\<close>






















section \<open>Example states\<close>

text \<open>
  Two-dimensional unit vectors stand in for embeddings in the examples; between unit
  vectors the cosine distance is one minus the inner product.
\<close>

definition unit_distance :: "real \<times> real \<Rightarrow> real \<times> real \<Rightarrow> real" where
  "unit_distance a b = 1 - (fst a * fst b + snd a * snd b)"

definition example_document :: "uuid \<Rightarrow> uuid \<Rightarrow> string \<Rightarrow> document" where
  "example_document i org_id fname =
     \<lparr>d_id = i, d_org_id = org_id, d_uploaded_by = None, d_storage_bucket = Some ''docs'',
      d_storage_path = fname, d_filename = fname, d_mime_type = ''application/pdf'',
      d_size_bytes = 1024, d_status = Some ''indexed'', d_error_message = None,
      d_created_at = Some 1, d_updated_at = Some 1\<rparr>"

definition example_chunk ::
  "uuid \<Rightarrow> uuid \<Rightarrow> uuid \<Rightarrow> int \<Rightarrow> (real \<times> real) option \<Rightarrow> timestamptz \<Rightarrow> (real \<times> real) document_chunk" where
  "example_chunk i org_id doc ix emb t =
     \<lparr>dc_id = i, dc_org_id = org_id, dc_document_id = doc, dc_chunk_index = ix,
      dc_text = ''madde'', dc_metadata = None, dc_embedding = emb, dc_created_at = Some t\<rparr>"

definition example_orgs :: "org list" where
  "example_orgs =
     [\<lparr>o_id = 1, o_name = ''A'', o_created_at = Some 0\<rparr>,
      \<lparr>o_id = 2, o_name = ''B'', o_created_at = Some 0\<rparr>]"

definition example_session :: chat_session where
  "example_session =
     \<lparr>cs_id = 7, cs_org_id = 1, cs_user_id = None, cs_title = None,
      cs_created_at = Some 2, cs_updated_at = Some 2\<rparr>"

text \<open>
  Two tenants with one document each; tenant 1 has a chunk that is not embedded yet, and
  the two chunks nearest to the vector \<open>(1, 0)\<close> belong to different tenants.
\<close>

definition two_tenants :: "(real \<times> real) database" where
  "two_tenants =
     \<lparr>orgs = example_orgs,
      documents = [example_document 10 1 ''tapu.pdf'', example_document 20 2 ''kadastro.pdf''],
      document_chunks =
        [example_chunk 100 1 10 0 (Some (3/5, 4/5)) 5,
         example_chunk 101 1 10 1 (Some (1, 0)) 6,
         example_chunk 102 1 10 2 None 7,
         example_chunk 200 2 20 0 (Some (1, 0)) 8],
      chat_sessions = [example_session],
      chat_feedback = []\<rparr>"

text \<open>Two chunks of one document with the same embedding; the scan meets the later one first.\<close>

definition tied_chunks :: "(real \<times> real) database" where
  "tied_chunks =
     \<lparr>orgs = example_orgs,
      documents = [example_document 10 1 ''tapu.pdf''],
      document_chunks =
        [example_chunk 101 1 10 1 (Some (1, 0)) 9,
         example_chunk 100 1 10 0 (Some (1, 0)) 3],
      chat_sessions = [],
      chat_feedback = []\<rparr>"

text \<open>A chunk filed under tenant 1 whose document belongs to tenant 2.\<close>

definition mixed_owner :: "(real \<times> real) database" where
  "mixed_owner =
     \<lparr>orgs = example_orgs,
      documents = [example_document 20 2 ''kadastro.pdf''],
      document_chunks = [example_chunk 100 1 20 0 (Some (1, 0)) 5],
      chat_sessions = [],
      chat_feedback = []\<rparr>"

section \<open>Facts about the SQL operators\<close>

lemma sql_and_true: "sql_and a b = Some True \<longleftrightarrow> a = Some True \<and> b = Some True"
  by (cases "(a, b)" rule: sql_and.cases) simp_all

lemma sql_or_true: "sql_or a b = Some True \<longleftrightarrow> a = Some True \<or> b = Some True"
  by (cases "(a, b)" rule: sql_or.cases) auto

lemma sql_eq_true: "sql_eq a b = Some True \<longleftrightarrow> (\<exists>x. a = Some x \<and> b = Some x)"
  by (cases "(a, b)" rule: sql_eq.cases) auto

lemma sql_gt_true: "sql_gt a b = Some True \<longleftrightarrow> (\<exists>x y. a = Some x \<and> b = Some y \<and> x > y)"
  by (cases "(a, b)" rule: sql_gt.cases) auto

lemma similarity_Some:
  "similarity cd q dc = Some s \<longleftrightarrow> (\<exists>e v. dc_embedding dc = Some e \<and> q = Some v \<and> s = 1 - cd e v)"
  by (cases "dc_embedding dc"; cases q) (auto simp: similarity_def)

lemma set_limit: "limit n rows = Inr out \<Longrightarrow> set out \<subseteq> set rows"
  by (auto simp: limit_def split: option.splits if_splits dest: in_set_takeD)

lemma set_order_by: "set (order_by e rows) = set rows"
  by (simp add: order_by_def)

lemma schema_where_true:
  "is_true (schema_where cd q th f dc) \<longleftrightarrow>
     f = Some (dc_org_id dc) \<and>
     (\<exists>e v t. dc_embedding dc = Some e \<and> q = Some v \<and> th = Some t \<and> 1 - cd e v > t)"
  by (cases "dc_embedding dc")
    (auto simp: is_true_def schema_where_def sql_and_true sql_eq_true sql_gt_true similarity_Some)

lemma limit_nonneg:
  "(\<forall>n. k = Some n \<longrightarrow> 0 \<le> n) \<Longrightarrow>
   limit k rows = Inr (case k of None \<Rightarrow> rows | Some n \<Rightarrow> take (nat n) rows)"
  by (auto simp: limit_def split: option.splits)

lemma limit_negative: "n < 0 \<Longrightarrow> limit (Some n) rows = Inl negative_limit"
  by (simp add: limit_def)

lemma order_by_sorted:
  assumes "\<forall>x \<in> set xs. \<exists>d. e x = Some d"
  shows "sorted_wrt (\<lambda>a b. the (e a) \<le> the (e b)) (order_by e xs)"
proof -
  have "sorted (map (\<lambda>r. nulls_last (e r)) (order_by e xs))"
    unfolding order_by_def by (rule sorted_sort_key)
  then have "sorted_wrt (\<lambda>a b. nulls_last (e a) \<le> nulls_last (e b)) (order_by e xs)"
    by (simp add: sorted_map)
  then show ?thesis
  proof (rule sorted_wrt_mono_rel [rotated])
    fix a b
    assume "a \<in> set (order_by e xs)" "b \<in> set (order_by e xs)"
      and le: "nulls_last (e a) \<le> nulls_last (e b)"
    then obtain x y where "e a = Some x" "e b = Some y"
      using assms by (meson set_order_by [of e xs, THEN equalityD1, THEN subsetD])
    with le show "the (e a) \<le> the (e b)"
      by simp
  qed
qed

lemma migration_where_true:
  "is_true (migration_where cd q th f (dc, d)) \<longleftrightarrow>
     (f = None \<or> f = Some (d_org_id d)) \<and>
     (\<exists>e v t. dc_embedding dc = Some e \<and> q = Some v \<and> th = Some t \<and> 1 - cd e v > t)"
  by (cases f)
    (auto simp: is_true_def migration_where_def sql_and_true sql_or_true sql_eq_true sql_gt_true
      similarity_Some)

lemma set_schema_rows:
  "set (schema_rows cd db q th f) =
     {dc \<in> set (document_chunks db). is_true (schema_where cd q th f dc)}"
  by (simp add: schema_rows_def set_order_by)

lemma set_chunks_join_documents:
  "set (chunks_join_documents db) =
     {(dc, d). dc \<in> set (document_chunks db) \<and> d \<in> set (documents db) \<and> dc_document_id dc = d_id d}"
  by (auto simp: chunks_join_documents_def)

lemma set_migration_rows:
  "set (migration_rows cd db q th f) =
     {(dc, d). dc \<in> set (document_chunks db) \<and> d \<in> set (documents db) \<and> dc_document_id dc = d_id d
        \<and> is_true (migration_where cd q th f (dc, d))}"
  by (auto simp: migration_rows_def set_order_by set_chunks_join_documents)

lemma sm_similarity_select: "sm_similarity (schema_select cd q dc) = similarity cd q dc"
  by (simp add: schema_select_def)

lemma mm_similarity_select: "mm_similarity (migration_select cd q (dc, d)) = similarity cd q dc"
  by (simp add: migration_select_def)

section \<open>Evaluation on the example states\<close>

lemmas example_defs =
  two_tenants_def tied_chunks_def mixed_owner_def example_chunk_def example_document_def
  example_orgs_def example_session_def unit_distance_def

lemmas match_defs =
  match_documents_schema_def schema_rows_def schema_where_def schema_select_def
  match_documents_migration_def migration_rows_def migration_where_def migration_select_def
  chunks_join_documents_def similarity_def order_by_def limit_def is_true_def

lemma two_tenants_schema_ids:
  "map sm_id (projr (match_documents_schema unit_distance two_tenants (Some (1, 0)) (Some (1/2))
     (Some 5) (Some 1))) = [101, 100]"
  by (simp add: example_defs match_defs)

section \<open>Similarity search\<close>

text \<open>
  Claim C10. The schema script's \<open>match_documents\<close> never returns a chunk whose embedding
  is NULL: for every input it either fails on a negative count, or every returned row is
  the projection of a stored chunk with a present embedding \<open>e\<close>, and the row's similarity
  is \<open>1 - (e <=> query_embedding)\<close> computed on that vector.
\<close>

theorem match_documents_schema_embedding_present:
  "((\<exists>n. k = Some n \<and> n < 0) \<longrightarrow> match_documents_schema cd db q th k f = Inl negative_limit) \<and>
   ((\<forall>n. k = Some n \<longrightarrow> 0 \<le> n) \<longrightarrow>
      (\<exists>rows. match_documents_schema cd db q th k f = Inr (map (schema_select cd q) rows) \<and>
         (\<forall>dc \<in> set rows. dc \<in> set (document_chunks db) \<and>
            (\<exists>e v. dc_embedding dc = Some e \<and> q = Some v \<and>
               sm_similarity (schema_select cd q dc) = Some (1 - cd e v)))))"
proof (intro conjI impI)
  assume "\<exists>n. k = Some n \<and> n < 0"
  then show "match_documents_schema cd db q th k f = Inl negative_limit"
    by (auto simp: match_documents_schema_def limit_negative)
next
  assume k: "\<forall>n. k = Some n \<longrightarrow> 0 \<le> n"
  define rows where "rows = (case k of None \<Rightarrow> schema_rows cd db q th f
                              | Some n \<Rightarrow> take (nat n) (schema_rows cd db q th f))"
  have sub: "set rows \<subseteq> set (schema_rows cd db q th f)"
    by (auto simp: rows_def split: option.splits dest: in_set_takeD)
  have "match_documents_schema cd db q th k f = Inr (map (schema_select cd q) rows)"
    by (simp add: match_documents_schema_def limit_nonneg [OF k] rows_def)
  moreover have "dc \<in> set (document_chunks db) \<and>
            (\<exists>e v. dc_embedding dc = Some e \<and> q = Some v \<and>
               sm_similarity (schema_select cd q dc) = Some (1 - cd e v))"
    if "dc \<in> set rows" for dc
  proof -
    from that sub have "dc \<in> set (document_chunks db)" and "is_true (schema_where cd q th f dc)"
      by (auto simp: set_schema_rows)
    then show ?thesis
      by (auto simp: schema_where_true similarity_Some sm_similarity_select)
  qed
  ultimately show "\<exists>rows. match_documents_schema cd db q th k f = Inr (map (schema_select cd q) rows) \<and>
         (\<forall>dc \<in> set rows. dc \<in> set (document_chunks db) \<and>
            (\<exists>e v. dc_embedding dc = Some e \<and> q = Some v \<and>
               sm_similarity (schema_select cd q dc) = Some (1 - cd e v)))"
    by blast
qed

text \<open>
  On the two-tenant example tenant 1 has a chunk without an embedding; the search for
  tenant 1 returns rows, and all of them come from embedded chunks.
\<close>

theorem match_documents_schema_embedding_present_witness:
  "\<exists>rows. match_documents_schema unit_distance two_tenants (Some (1, 0)) (Some (1/2)) (Some 5) (Some 1)
            = Inr (map (schema_select unit_distance (Some (1, 0))) rows) \<and>
          rows \<noteq> [] \<and>
          (\<forall>dc \<in> set rows. dc \<in> set (document_chunks two_tenants) \<and> dc_embedding dc \<noteq> None) \<and>
          example_chunk 102 1 10 2 None 7 \<in> set (document_chunks two_tenants)"
proof -
  have k: "\<forall>n. Some (5::int) = Some n \<longrightarrow> 0 \<le> n"
    by simp
  from match_documents_schema_embedding_present
    [of "Some 5" unit_distance two_tenants "Some (1, 0)" "Some (1/2)" "Some 1",
      THEN conjunct2, THEN mp, OF k]
  obtain rows where
    out: "match_documents_schema unit_distance two_tenants (Some (1, 0)) (Some (1/2)) (Some 5) (Some 1)
            = Inr (map (schema_select unit_distance (Some (1, 0))) rows)"
    and emb: "\<forall>dc \<in> set rows. dc \<in> set (document_chunks two_tenants) \<and>
      (\<exists>e v. dc_embedding dc = Some e \<and> Some (1, 0) = Some v \<and>
         sm_similarity (schema_select unit_distance (Some (1, 0)) dc) = Some (1 - unit_distance e v))"
    by blast
  from out two_tenants_schema_ids have "rows \<noteq> []"
    by auto
  moreover have "example_chunk 102 1 10 2 None 7 \<in> set (document_chunks two_tenants)"
    by (simp add: two_tenants_def)
  ultimately show ?thesis
    using out emb by blast
qed

lemma limit_order_by_ranked:
  fixes e :: "'a \<Rightarrow> real option"
  assumes "0 \<le> k" and "\<forall>x \<in> set xs. \<exists>d. e x = Some d"
  shows "\<exists>rows. limit (Some k) (order_by e xs) = Inr rows \<and> set rows \<subseteq> set xs \<and>
           sorted_wrt (\<lambda>a b. the (e a) \<le> the (e b)) rows \<and> int (length rows) \<le> k"
proof -
  let ?rows = "take (nat k) (order_by e xs)"
  have "limit (Some k) (order_by e xs) = Inr ?rows"
    using assms(1) by (simp add: limit_def)
  moreover have "set ?rows \<subseteq> set xs"
    using set_take_subset [of "nat k" "order_by e xs"] by (simp add: set_order_by)
  moreover have "sorted_wrt (\<lambda>a b. the (e a) \<le> the (e b)) ?rows"
    by (rule sorted_wrt_take) (rule order_by_sorted [OF assms(2)])
  moreover have "int (length ?rows) \<le> k"
    using assms(1) by simp
  ultimately show ?thesis
    by blast
qed

lemma ranked_similarities:
  fixes dist :: "'a \<Rightarrow> real option" and sim :: "'a \<Rightarrow> real option"
  assumes sorted: "sorted_wrt (\<lambda>a b. the (dist a) \<le> the (dist b)) rows"
    and each: "\<forall>x \<in> set rows. \<exists>d. dist x = Some d \<and> sim x = Some (1 - d) \<and> t < 1 - d"
  shows "\<exists>sims. map sim rows = map Some sims \<and> sorted (rev sims) \<and> (\<forall>s \<in> set sims. t < s)"
proof -
  let ?sims = "map (\<lambda>x. 1 - the (dist x)) rows"
  have "map sim rows = map Some ?sims"
    using each by auto
  moreover have "sorted_wrt (\<lambda>a b. 1 - the (dist b) \<le> 1 - the (dist a)) rows"
    using sorted by (rule sorted_wrt_mono_rel [rotated]) simp
  then have "sorted (rev ?sims)"
    by (simp add: sorted_wrt_rev sorted_wrt_map)
  moreover have "\<forall>s \<in> set ?sims. t < s"
    using each by auto
  ultimately show ?thesis
    by blast
qed

lemma schema_rows_distance:
  assumes "dc \<in> set (schema_rows cd db (Some v) (Some t) f)"
  shows "dc \<in> set (document_chunks db) \<and>
    (\<exists>e. dc_embedding dc = Some e \<and>
       cosine_distance cd (dc_embedding dc) (Some v) = Some (cd e v) \<and>
       similarity cd (Some v) dc = Some (1 - cd e v) \<and> t < 1 - cd e v)"
  using assms by (auto simp: set_schema_rows schema_where_true similarity_Some)

lemma migration_rows_distance:
  assumes "row \<in> set (migration_rows cd db (Some v) (Some t) f)"
  shows "fst row \<in> set (document_chunks db) \<and>
    (\<exists>e. dc_embedding (fst row) = Some e \<and>
       cosine_distance cd (dc_embedding (fst row)) (Some v) = Some (cd e v) \<and>
       similarity cd (Some v) (fst row) = Some (1 - cd e v) \<and> t < 1 - cd e v)"
proof -
  obtain dc d where row: "row = (dc, d)"
    by (cases row)
  with assms have "dc \<in> set (document_chunks db)"
    and "is_true (migration_where cd (Some v) (Some t) f (dc, d))"
    by (simp_all add: set_migration_rows)
  then show ?thesis
    unfolding row by (auto simp: migration_where_true similarity_Some)
qed

text \<open>
  Claim C3. For a query vector, a threshold and a count \<open>k \<ge> 0\<close>, and any tenant filter,
  both definitions of \<open>match_documents\<close> return a sequence of rows of stored chunks in
  which each row's similarity is one minus the cosine distance between the chunk's
  embedding and the query vector, the similarities are in descending order, each is
  strictly above the threshold, and there are at most \<open>k\<close> rows.
\<close>

theorem match_documents_ranked:
  assumes "0 \<le> k"
  shows
    "(\<exists>rows sims.
        match_documents_schema cd db (Some v) (Some t) (Some k) f
          = Inr (map (schema_select cd (Some v)) rows) \<and>
        (\<forall>dc \<in> set rows. dc \<in> set (document_chunks db) \<and>
           (\<exists>e. dc_embedding dc = Some e \<and>
              sm_similarity (schema_select cd (Some v) dc) = Some (1 - cd e v))) \<and>
        map sm_similarity (map (schema_select cd (Some v)) rows) = map Some sims \<and>
        sorted (rev sims) \<and> (\<forall>s \<in> set sims. t < s) \<and> int (length rows) \<le> k) \<and>
     (\<exists>rows sims.
        match_documents_migration cd db (Some v) (Some t) (Some k) f
          = Inr (map (migration_select cd (Some v)) rows) \<and>
        (\<forall>(dc, d) \<in> set rows. dc \<in> set (document_chunks db) \<and>
           (\<exists>e. dc_embedding dc = Some e \<and>
              mm_similarity (migration_select cd (Some v) (dc, d)) = Some (1 - cd e v))) \<and>
        map mm_similarity (map (migration_select cd (Some v)) rows) = map Some sims \<and>
        sorted (rev sims) \<and> (\<forall>s \<in> set sims. t < s) \<and> int (length rows) \<le> k)"
proof
  let ?dist = "\<lambda>dc. cosine_distance cd (dc_embedding dc) (Some v)"
  let ?xs = "filter (\<lambda>dc. is_true (schema_where cd (Some v) (Some t) f dc)) (document_chunks db)"
  have all: "set ?xs = set (schema_rows cd db (Some v) (Some t) f)"
    by (simp add: set_schema_rows)
  then have "\<forall>x \<in> set ?xs. \<exists>d. ?dist x = Some d"
    using schema_rows_distance [of _ cd db v t f] by blast
  from limit_order_by_ranked [OF assms this] obtain rows where
    lim: "limit (Some k) (schema_rows cd db (Some v) (Some t) f) = Inr rows"
    and sub: "set rows \<subseteq> set ?xs"
    and sorted: "sorted_wrt (\<lambda>a b. the (?dist a) \<le> the (?dist b)) rows"
    and len: "int (length rows) \<le> k"
    unfolding schema_rows_def by blast
  have each: "\<forall>dc \<in> set rows. \<exists>d. ?dist dc = Some d \<and> similarity cd (Some v) dc = Some (1 - d) \<and> t < 1 - d"
    using sub all schema_rows_distance [of _ cd db v t f] by blast
  from ranked_similarities [OF sorted each] obtain sims where
    sims: "map (similarity cd (Some v)) rows = map Some sims" "sorted (rev sims)" "\<forall>s \<in> set sims. t < s"
    by blast
  have "match_documents_schema cd db (Some v) (Some t) (Some k) f
          = Inr (map (schema_select cd (Some v)) rows)"
    by (simp add: match_documents_schema_def lim)
  moreover have "\<forall>dc \<in> set rows. dc \<in> set (document_chunks db) \<and>
           (\<exists>e. dc_embedding dc = Some e \<and>
              sm_similarity (schema_select cd (Some v) dc) = Some (1 - cd e v))"
  proof
    fix dc assume "dc \<in> set rows"
    with sub all have "dc \<in> set (schema_rows cd db (Some v) (Some t) f)"
      by blast
    from schema_rows_distance [OF this] show "dc \<in> set (document_chunks db) \<and>
           (\<exists>e. dc_embedding dc = Some e \<and>
              sm_similarity (schema_select cd (Some v) dc) = Some (1 - cd e v))"
      by (auto simp: sm_similarity_select)
  qed
  moreover have "map sm_similarity (map (schema_select cd (Some v)) rows) = map Some sims"
    using sims(1) by (simp add: comp_def sm_similarity_select)
  ultimately show "\<exists>rows sims.
        match_documents_schema cd db (Some v) (Some t) (Some k) f
          = Inr (map (schema_select cd (Some v)) rows) \<and>
        (\<forall>dc \<in> set rows. dc \<in> set (document_chunks db) \<and>
           (\<exists>e. dc_embedding dc = Some e \<and>
              sm_similarity (schema_select cd (Some v) dc) = Some (1 - cd e v))) \<and>
        map sm_similarity (map (schema_select cd (Some v)) rows) = map Some sims \<and>
        sorted (rev sims) \<and> (\<forall>s \<in> set sims. t < s) \<and> int (length rows) \<le> k"
    using sims(2,3) len by blast
next
  let ?dist = "\<lambda>row. cosine_distance cd (dc_embedding (fst row)) (Some v)"
  let ?xs = "filter (\<lambda>row. is_true (migration_where cd (Some v) (Some t) f row)) (chunks_join_documents db)"
  have all: "set ?xs = set (migration_rows cd db (Some v) (Some t) f)"
    by (simp add: migration_rows_def set_order_by)
  then have "\<forall>x \<in> set ?xs. \<exists>d. ?dist x = Some d"
    using migration_rows_distance [of _ cd db v t f] by blast
  from limit_order_by_ranked [OF assms this] obtain rows where
    lim: "limit (Some k) (migration_rows cd db (Some v) (Some t) f) = Inr rows"
    and sub: "set rows \<subseteq> set ?xs"
    and sorted: "sorted_wrt (\<lambda>a b. the (?dist a) \<le> the (?dist b)) rows"
    and len: "int (length rows) \<le> k"
    unfolding migration_rows_def by blast
  have each: "\<forall>row \<in> set rows. \<exists>d. ?dist row = Some d \<and> similarity cd (Some v) (fst row) = Some (1 - d) \<and> t < 1 - d"
    using sub all migration_rows_distance [of _ cd db v t f] by blast
  from ranked_similarities [OF sorted each] obtain sims where
    sims: "map (\<lambda>row. similarity cd (Some v) (fst row)) rows = map Some sims"
      "sorted (rev sims)" "\<forall>s \<in> set sims. t < s"
    by blast
  have "match_documents_migration cd db (Some v) (Some t) (Some k) f
          = Inr (map (migration_select cd (Some v)) rows)"
    by (simp add: match_documents_migration_def lim)
  moreover have "\<forall>(dc, d) \<in> set rows. dc \<in> set (document_chunks db) \<and>
           (\<exists>e. dc_embedding dc = Some e \<and>
              mm_similarity (migration_select cd (Some v) (dc, d)) = Some (1 - cd e v))"
  proof (rule ballI, rule prod.case_eq_if [THEN iffD2])
    fix row assume "row \<in> set rows"
    with sub all have "row \<in> set (migration_rows cd db (Some v) (Some t) f)"
      by blast
    from migration_rows_distance [OF this] show "fst row \<in> set (document_chunks db) \<and>
           (\<exists>e. dc_embedding (fst row) = Some e \<and>
              mm_similarity (migration_select cd (Some v) (fst row, snd row)) = Some (1 - cd e v))"
      by (auto simp: migration_select_def case_prod_beta)
  qed
  moreover have "map mm_similarity (map (migration_select cd (Some v)) rows) = map Some sims"
    using sims(1) by (simp add: comp_def migration_select_def case_prod_beta)
  ultimately show "\<exists>rows sims.
        match_documents_migration cd db (Some v) (Some t) (Some k) f
          = Inr (map (migration_select cd (Some v)) rows) \<and>
        (\<forall>(dc, d) \<in> set rows. dc \<in> set (document_chunks db) \<and>
           (\<exists>e. dc_embedding dc = Some e \<and>
              mm_similarity (migration_select cd (Some v) (dc, d)) = Some (1 - cd e v))) \<and>
        map mm_similarity (map (migration_select cd (Some v)) rows) = map Some sims \<and>
        sorted (rev sims) \<and> (\<forall>s \<in> set sims. t < s) \<and> int (length rows) \<le> k"
    using sims(2,3) len by blast
qed

lemma two_tenants_migration_ids:
  "map mm_id (projr (match_documents_migration unit_distance two_tenants (Some (1, 0)) (Some (1/2))
     (Some 5) (Some 1))) = [101, 100]"
  by (simp add: example_defs match_defs)

theorem match_documents_ranked_witness:
  "(0::int) \<le> 5 \<and>
   (\<exists>rows sims.
      match_documents_schema unit_distance two_tenants (Some (1, 0)) (Some (1/2)) (Some 5) (Some 1)
        = Inr (map (schema_select unit_distance (Some (1, 0))) rows) \<and>
      rows \<noteq> [] \<and>
      map sm_similarity (map (schema_select unit_distance (Some (1, 0))) rows) = map Some sims \<and>
      sorted (rev sims) \<and> (\<forall>s \<in> set sims. 1/2 < s) \<and> int (length rows) \<le> 5) \<and>
   (\<exists>rows sims.
      match_documents_migration unit_distance two_tenants (Some (1, 0)) (Some (1/2)) (Some 5) (Some 1)
        = Inr (map (migration_select unit_distance (Some (1, 0))) rows) \<and>
      rows \<noteq> [] \<and>
      map mm_similarity (map (migration_select unit_distance (Some (1, 0))) rows) = map Some sims \<and>
      sorted (rev sims) \<and> (\<forall>s \<in> set sims. 1/2 < s) \<and> int (length rows) \<le> 5)"
proof -
  have k: "(0::int) \<le> 5"
    by simp
  note ranked = match_documents_ranked [OF k, of unit_distance two_tenants "(1, 0)" "1/2" "Some 1"]
  from ranked [THEN conjunct1] obtain rows sims where
    s: "match_documents_schema unit_distance two_tenants (Some (1, 0)) (Some (1/2)) (Some 5) (Some 1)
        = Inr (map (schema_select unit_distance (Some (1, 0))) rows)"
      "map sm_similarity (map (schema_select unit_distance (Some (1, 0))) rows) = map Some sims"
      "sorted (rev sims)" "\<forall>s \<in> set sims. 1/2 < s" "int (length rows) \<le> 5"
    by blast
  from s(1) two_tenants_schema_ids have sne: "rows \<noteq> []"
    by auto
  from ranked [THEN conjunct2] obtain rows' sims' where
    m: "match_documents_migration unit_distance two_tenants (Some (1, 0)) (Some (1/2)) (Some 5) (Some 1)
        = Inr (map (migration_select unit_distance (Some (1, 0))) rows')"
      "map mm_similarity (map (migration_select unit_distance (Some (1, 0))) rows') = map Some sims'"
      "sorted (rev sims')" "\<forall>s \<in> set sims'. 1/2 < s" "int (length rows') \<le> 5"
    by blast
  from m(1) two_tenants_migration_ids have mne: "rows' \<noteq> []"
    by auto
  from k s sne m mne show ?thesis
    by blast
qed

lemma limit_map: "limit k (map g xs) = map_sum id (map g) (limit k xs)"
  by (simp add: limit_def take_map split: option.splits)

text \<open>
  Claim C1, as amended. For distinct tenants \<open>t1\<close> and \<open>t2\<close> and a count that is NULL or
  not negative, a search with the tenant filter \<open>t1\<close> returns, in the schema script's
  definition, only rows of chunks whose \<open>org_id\<close> is \<open>t1\<close>, and in the migration's
  definition only rows of chunks joined to a document whose \<open>org_id\<close> is \<open>t1\<close>; neither
  returns a row filed under \<open>t2\<close> in that column. With a NULL filter the schema script's
  definition returns no row at all.
\<close>

theorem match_documents_tenant_scope:
  assumes "t1 \<noteq> t2" and "\<forall>n. k = Some n \<longrightarrow> 0 \<le> n"
  shows
    "(\<exists>rows. match_documents_schema cd db q th k (Some t1) = Inr (map (schema_select cd q) rows) \<and>
        (\<forall>dc \<in> set rows. dc \<in> set (document_chunks db) \<and> dc_org_id dc = t1 \<and> dc_org_id dc \<noteq> t2)) \<and>
     match_documents_schema cd db q th k None = Inr [] \<and>
     (\<exists>rows. match_documents_migration cd db q th k (Some t1)
          = Inr (map (migration_select cd q) rows) \<and>
        (\<forall>(dc, d) \<in> set rows. dc \<in> set (document_chunks db) \<and> d \<in> set (documents db) \<and>
           dc_document_id dc = d_id d \<and> d_org_id d = t1 \<and> d_org_id d \<noteq> t2))"
proof (intro conjI)
  let ?all = "schema_rows cd db q th (Some t1)"
  let ?rows = "case k of None \<Rightarrow> ?all | Some n \<Rightarrow> take (nat n) ?all"
  have "set ?rows \<subseteq> set ?all"
    by (auto split: option.splits dest: in_set_takeD)
  then have "\<forall>dc \<in> set ?rows. dc \<in> set (document_chunks db) \<and> dc_org_id dc = t1 \<and> dc_org_id dc \<noteq> t2"
    using assms(1) by (auto simp: set_schema_rows schema_where_true)
  moreover have "match_documents_schema cd db q th k (Some t1) = Inr (map (schema_select cd q) ?rows)"
    by (simp add: match_documents_schema_def limit_nonneg [OF assms(2)])
  ultimately show "\<exists>rows. match_documents_schema cd db q th k (Some t1)
        = Inr (map (schema_select cd q) rows) \<and>
        (\<forall>dc \<in> set rows. dc \<in> set (document_chunks db) \<and> dc_org_id dc = t1 \<and> dc_org_id dc \<noteq> t2)"
    by blast
next
  have "set (schema_rows cd db q th None) = {}"
    by (simp add: set_schema_rows schema_where_true)
  then have "schema_rows cd db q th None = []"
    by simp
  then show "match_documents_schema cd db q th k None = Inr []"
    by (simp add: match_documents_schema_def limit_nonneg [OF assms(2)] split: option.splits)
next
  let ?all = "migration_rows cd db q th (Some t1)"
  let ?rows = "case k of None \<Rightarrow> ?all | Some n \<Rightarrow> take (nat n) ?all"
  have "set ?rows \<subseteq> set ?all"
    by (auto split: option.splits dest: in_set_takeD)
  then have "\<forall>(dc, d) \<in> set ?rows. dc \<in> set (document_chunks db) \<and> d \<in> set (documents db) \<and>
           dc_document_id dc = d_id d \<and> d_org_id d = t1 \<and> d_org_id d \<noteq> t2"
    using assms(1) by (auto simp: set_migration_rows migration_where_true)
  moreover have "match_documents_migration cd db q th k (Some t1)
      = Inr (map (migration_select cd q) ?rows)"
    by (simp add: match_documents_migration_def limit_nonneg [OF assms(2)])
  ultimately show "\<exists>rows. match_documents_migration cd db q th k (Some t1)
          = Inr (map (migration_select cd q) rows) \<and>
        (\<forall>(dc, d) \<in> set rows. dc \<in> set (document_chunks db) \<and> d \<in> set (documents db) \<and>
           dc_document_id dc = d_id d \<and> d_org_id d = t1 \<and> d_org_id d \<noteq> t2)"
    by blast
qed

text \<open>
  The claim as stated fails on the migration's definition. Its filter is
  \<open>filter_org_id is null or d.org_id = filter_org_id\<close>: with a NULL filter the rows of both
  tenants of the example come back in one result, and with the filter set to tenant 2 a
  chunk filed under tenant 1 comes back when its document belongs to tenant 2.
\<close>

theorem match_documents_null_filter_counterexample:
  "match_documents_migration unit_distance two_tenants (Some (1, 0)) (Some (1/2)) (Some 5) None
     = Inr (map (migration_select unit_distance (Some (1, 0)))
         [(example_chunk 101 1 10 1 (Some (1, 0)) 6, example_document 10 1 ''tapu.pdf''),
          (example_chunk 200 2 20 0 (Some (1, 0)) 8, example_document 20 2 ''kadastro.pdf''),
          (example_chunk 100 1 10 0 (Some (3/5, 4/5)) 5, example_document 10 1 ''tapu.pdf'')]) \<and>
   dc_org_id (example_chunk 101 1 10 1 (Some (1, 0)) 6) = 1 \<and>
   dc_org_id (example_chunk 200 2 20 0 (Some (1, 0)) 8) = 2 \<and>
   match_documents_migration unit_distance mixed_owner (Some (1, 0)) (Some (1/2)) (Some 5) (Some 2)
     = Inr (map (migration_select unit_distance (Some (1, 0)))
         [(example_chunk 100 1 20 0 (Some (1, 0)) 5, example_document 20 2 ''kadastro.pdf'')]) \<and>
   dc_org_id (example_chunk 100 1 20 0 (Some (1, 0)) 5) = 1"
  by (simp add: example_defs match_defs)

text \<open>The amended claim on the two-tenant example, which holds a chunk of tenant 2.\<close>

theorem match_documents_tenant_scope_witness:
  "(1::uuid) \<noteq> 2 \<and>
   (\<exists>rows. match_documents_schema unit_distance two_tenants (Some (1, 0)) (Some (1/2)) (Some 5) (Some 1)
        = Inr (map (schema_select unit_distance (Some (1, 0))) rows) \<and> rows \<noteq> [] \<and>
        (\<forall>dc \<in> set rows. dc_org_id dc = 1 \<and> dc_org_id dc \<noteq> 2)) \<and>
   (\<exists>rows. match_documents_migration unit_distance two_tenants (Some (1, 0)) (Some (1/2)) (Some 5) (Some 1)
        = Inr (map (migration_select unit_distance (Some (1, 0))) rows) \<and> rows \<noteq> [] \<and>
        (\<forall>(dc, d) \<in> set rows. d_org_id d = 1 \<and> d_org_id d \<noteq> 2)) \<and>
   (\<exists>dc \<in> set (document_chunks two_tenants). dc_org_id dc = 2)"
proof -
  have ne: "(1::uuid) \<noteq> 2" and k: "\<forall>n. Some (5::int) = Some n \<longrightarrow> 0 \<le> n"
    by simp_all
  note scope = match_documents_tenant_scope
    [OF ne k, of unit_distance two_tenants "Some (1, 0)" "Some (1/2)"]
  from scope [THEN conjunct1] obtain rows where
    s: "match_documents_schema unit_distance two_tenants (Some (1, 0)) (Some (1/2)) (Some 5) (Some 1)
        = Inr (map (schema_select unit_distance (Some (1, 0))) rows)"
      "\<forall>dc \<in> set rows. dc_org_id dc = 1 \<and> dc_org_id dc \<noteq> 2"
    by blast
  from s(1) two_tenants_schema_ids have sne: "rows \<noteq> []"
    by auto
  from scope [THEN conjunct2, THEN conjunct2] obtain rows' where
    m: "match_documents_migration unit_distance two_tenants (Some (1, 0)) (Some (1/2)) (Some 5) (Some 1)
        = Inr (map (migration_select unit_distance (Some (1, 0))) rows')"
      "\<forall>(dc, d) \<in> set rows'. d_org_id d = 1 \<and> d_org_id d \<noteq> 2"
    by blast
  from m(1) two_tenants_migration_ids have mne: "rows' \<noteq> []"
    by auto
  have "\<exists>dc \<in> set (document_chunks two_tenants). dc_org_id dc = 2"
    by (simp add: example_defs)
  with ne s sne m mne show ?thesis
    by blast
qed

section \<open>The order of ties\<close>

lemma ordered_by_order_by: "ordered_by e rows (order_by e rows)"
  by (simp add: ordered_by_def order_by_def)

lemma match_documents_schema_admitted:
  "schema_admits cd db q th f (schema_rows cd db q th f) \<and>
   match_documents_schema cd db q th k f = schema_result cd q k (schema_rows cd db q th f)"
  by (simp add: schema_admits_def schema_rows_def ordered_by_order_by match_documents_schema_def
      schema_result_def)

lemma match_documents_migration_admitted:
  "migration_admits cd db q th f (migration_rows cd db q th f) \<and>
   match_documents_migration cd db q th k f = migration_result cd q k (migration_rows cd db q th f)"
  by (simp add: migration_admits_def migration_rows_def ordered_by_order_by
      match_documents_migration_def migration_result_def)

lemma ordered_by_swap:
  assumes "ordered_by e rows (xs @ a # b # ys)" and "e a = e b"
  shows "ordered_by e rows (xs @ b # a # ys)"
proof -
  have "mset (xs @ b # a # ys) = mset (xs @ a # b # ys)"
    by (simp add: add_mset_commute)
  moreover have "sorted (map (\<lambda>r. nulls_last (e r)) (xs @ b # a # ys))"
    using assms by (auto simp: ordered_by_def sorted_append)
  moreover from assms(1) have "mset (xs @ a # b # ys) = mset rows"
    by (simp only: ordered_by_def)
  ultimately show ?thesis
    unfolding ordered_by_def by (intro conjI) (rule trans)
qed

lemma ordered_by_map:
  assumes "ordered_by (\<lambda>x. e (u x)) rows out"
  shows "ordered_by e (map u rows) (map u out)"
  using assms by (simp add: ordered_by_def comp_def)

lemma join_restamped:
  "chunks_join_documents (db\<lparr>document_chunks := map (\<lambda>dc. dc\<lparr>dc_created_at := g dc\<rparr>) (document_chunks db)\<rparr>) =
   map (apfst (\<lambda>dc. dc\<lparr>dc_created_at := g dc\<rparr>)) (chunks_join_documents db)"
  by (simp add: chunks_join_documents_def map_concat comp_def)

lemma schema_select_restamped:
  "schema_select cd q (dc\<lparr>dc_created_at := t\<rparr>) = schema_select cd q dc"
  by (simp add: schema_select_def similarity_def)

lemma migration_select_restamped:
  "migration_select cd q (apfst (\<lambda>dc. dc\<lparr>dc_created_at := g dc\<rparr>) row) = migration_select cd q row"
  by (simp add: migration_select_def similarity_def case_prod_beta)

lemma similarity_eq_distance:
  "similarity cd q a = similarity cd q b \<longleftrightarrow>
     cosine_distance cd (dc_embedding a) q = cosine_distance cd (dc_embedding b) q"
  by (cases "cosine_distance cd (dc_embedding a) q"; cases "cosine_distance cd (dc_embedding b) q")
    (simp_all add: similarity_def)

lemma schema_admits_restamped:
  assumes "schema_admits cd db q th f rows"
  shows "schema_admits cd
      (db\<lparr>document_chunks := map (\<lambda>dc. dc\<lparr>dc_created_at := g dc\<rparr>) (document_chunks db)\<rparr>) q th f
      (map (\<lambda>dc. dc\<lparr>dc_created_at := g dc\<rparr>) rows)"
proof -
  have "filter (\<lambda>dc. is_true (schema_where cd q th f dc))
      (map (\<lambda>dc. dc\<lparr>dc_created_at := g dc\<rparr>) (document_chunks db)) =
    map (\<lambda>dc. dc\<lparr>dc_created_at := g dc\<rparr>)
      (filter (\<lambda>dc. is_true (schema_where cd q th f dc)) (document_chunks db))"
    by (simp add: filter_map comp_def schema_where_def similarity_def)
  then show ?thesis
    using assms unfolding schema_admits_def by (simp add: ordered_by_map)
qed

lemma migration_admits_restamped:
  assumes "migration_admits cd db q th f rows"
  shows "migration_admits cd
      (db\<lparr>document_chunks := map (\<lambda>dc. dc\<lparr>dc_created_at := g dc\<rparr>) (document_chunks db)\<rparr>) q th f
      (map (apfst (\<lambda>dc. dc\<lparr>dc_created_at := g dc\<rparr>)) rows)"
proof -
  have "filter (\<lambda>row. is_true (migration_where cd q th f row))
      (map (apfst (\<lambda>dc. dc\<lparr>dc_created_at := g dc\<rparr>)) (chunks_join_documents db)) =
    map (apfst (\<lambda>dc. dc\<lparr>dc_created_at := g dc\<rparr>))
      (filter (\<lambda>row. is_true (migration_where cd q th f row)) (chunks_join_documents db))"
    by (simp add: filter_map comp_def migration_where_def similarity_def case_prod_beta)
  then show ?thesis
    using assms unfolding migration_admits_def join_restamped by (simp add: ordered_by_map)
qed

lemma schema_result_restamped:
  "schema_result cd q k (map (\<lambda>dc. dc\<lparr>dc_created_at := g dc\<rparr>) rows) = schema_result cd q k rows"
  by (simp add: schema_result_def limit_map sum.map_comp comp_def schema_select_restamped id_def)

lemma migration_result_restamped:
  "migration_result cd q k (map (apfst (\<lambda>dc. dc\<lparr>dc_created_at := g dc\<rparr>)) rows) =
   migration_result cd q k rows"
  by (simp add: migration_result_def limit_map sum.map_comp comp_def migration_select_restamped id_def)

text \<open>
  Claim C4, as amended. \<open>match_documents\<close> sorts by cosine distance alone, in both
  definitions, and has no rule for ties. Two neighbouring rows with exactly equal
  similarity may come back in either order: exchanging them in a result the query admits
  gives a result the query admits. The creation time of a chunk is not consulted: a
  result admitted on a state is admitted, with the same returned rows, on the state in
  which the chunks carry any other \<open>created_at\<close> values. The returned sequence is
  determined up to the order of rows at equal distance, and no further.
\<close>

theorem match_documents_ties_open:
  fixes db :: "'v database"
  shows
    "(\<forall>xs a b ys.
        schema_admits cd db q th f (xs @ a # b # ys) \<and> similarity cd q a = similarity cd q b \<longrightarrow>
        schema_admits cd db q th f (xs @ b # a # ys)) \<and>
     (\<forall>rows g.
        schema_admits cd db q th f rows \<longrightarrow>
        schema_admits cd
          (db\<lparr>document_chunks := map (\<lambda>dc. dc\<lparr>dc_created_at := g dc\<rparr>) (document_chunks db)\<rparr>)
          q th f (map (\<lambda>dc. dc\<lparr>dc_created_at := g dc\<rparr>) rows) \<and>
        schema_result cd q k (map (\<lambda>dc. dc\<lparr>dc_created_at := g dc\<rparr>) rows)
          = schema_result cd q k rows) \<and>
     (\<forall>xs a b ys.
        migration_admits cd db q th f (xs @ a # b # ys) \<and>
        similarity cd q (fst a) = similarity cd q (fst b) \<longrightarrow>
        migration_admits cd db q th f (xs @ b # a # ys)) \<and>
     (\<forall>rows g.
        migration_admits cd db q th f rows \<longrightarrow>
        migration_admits cd
          (db\<lparr>document_chunks := map (\<lambda>dc. dc\<lparr>dc_created_at := g dc\<rparr>) (document_chunks db)\<rparr>)
          q th f (map (apfst (\<lambda>dc. dc\<lparr>dc_created_at := g dc\<rparr>)) rows) \<and>
        migration_result cd q k (map (apfst (\<lambda>dc. dc\<lparr>dc_created_at := g dc\<rparr>)) rows)
          = migration_result cd q k rows)"
proof (intro conjI allI impI)
  fix xs ys :: "'v document_chunk list" and a b
  assume "schema_admits cd db q th f (xs @ a # b # ys) \<and> similarity cd q a = similarity cd q b"
  then show "schema_admits cd db q th f (xs @ b # a # ys)"
    unfolding schema_admits_def similarity_eq_distance by (blast intro: ordered_by_swap)
next
  fix xs ys :: "('v document_chunk \<times> document) list" and a b
  assume "migration_admits cd db q th f (xs @ a # b # ys) \<and>
    similarity cd q (fst a) = similarity cd q (fst b)"
  then show "migration_admits cd db q th f (xs @ b # a # ys)"
    unfolding migration_admits_def similarity_eq_distance by (blast intro: ordered_by_swap)
qed (simp_all add: schema_admits_restamped migration_admits_restamped schema_result_restamped
    migration_result_restamped)

text \<open>
  The claim as stated has the earlier-created chunk first among equals, on every run. On
  two chunks at the same distance, created at instants 3 and 9, both definitions admit the
  result with the chunk created at instant 9 first.
\<close>

theorem match_documents_creation_order_counterexample:
  "schema_admits unit_distance tied_chunks (Some (1, 0)) (Some (1/2)) (Some 1)
     [example_chunk 101 1 10 1 (Some (1, 0)) 9, example_chunk 100 1 10 0 (Some (1, 0)) 3] \<and>
   schema_result unit_distance (Some (1, 0)) (Some 5)
     [example_chunk 101 1 10 1 (Some (1, 0)) 9, example_chunk 100 1 10 0 (Some (1, 0)) 3]
     = Inr (map (schema_select unit_distance (Some (1, 0)))
         [example_chunk 101 1 10 1 (Some (1, 0)) 9, example_chunk 100 1 10 0 (Some (1, 0)) 3]) \<and>
   migration_admits unit_distance tied_chunks (Some (1, 0)) (Some (1/2)) (Some 1)
     [(example_chunk 101 1 10 1 (Some (1, 0)) 9, example_document 10 1 ''tapu.pdf''),
      (example_chunk 100 1 10 0 (Some (1, 0)) 3, example_document 10 1 ''tapu.pdf'')] \<and>
   migration_result unit_distance (Some (1, 0)) (Some 5)
     [(example_chunk 101 1 10 1 (Some (1, 0)) 9, example_document 10 1 ''tapu.pdf''),
      (example_chunk 100 1 10 0 (Some (1, 0)) 3, example_document 10 1 ''tapu.pdf'')]
     = Inr (map (migration_select unit_distance (Some (1, 0)))
         [(example_chunk 101 1 10 1 (Some (1, 0)) 9, example_document 10 1 ''tapu.pdf''),
          (example_chunk 100 1 10 0 (Some (1, 0)) 3, example_document 10 1 ''tapu.pdf'')]) \<and>
   similarity unit_distance (Some (1, 0)) (example_chunk 101 1 10 1 (Some (1, 0)) 9)
     = similarity unit_distance (Some (1, 0)) (example_chunk 100 1 10 0 (Some (1, 0)) 3) \<and>
   dc_created_at (example_chunk 101 1 10 1 (Some (1, 0)) 9) = Some 9 \<and>
   dc_created_at (example_chunk 100 1 10 0 (Some (1, 0)) 3) = Some 3"
  by (simp add: schema_admits_def migration_admits_def ordered_by_def schema_result_def
      migration_result_def example_defs match_defs)

text \<open>
  On that state both orders are admitted, and with a count of 1 they return different
  chunks.
\<close>

theorem match_documents_ties_open_witness:
  "schema_admits unit_distance tied_chunks (Some (1, 0)) (Some (1/2)) (Some 1)
     [example_chunk 100 1 10 0 (Some (1, 0)) 3, example_chunk 101 1 10 1 (Some (1, 0)) 9] \<and>
   schema_admits unit_distance tied_chunks (Some (1, 0)) (Some (1/2)) (Some 1)
     [example_chunk 101 1 10 1 (Some (1, 0)) 9, example_chunk 100 1 10 0 (Some (1, 0)) 3] \<and>
   map_sum id (map sm_id) (schema_result unit_distance (Some (1, 0)) (Some 1)
     [example_chunk 100 1 10 0 (Some (1, 0)) 3, example_chunk 101 1 10 1 (Some (1, 0)) 9]) = Inr [100] \<and>
   map_sum id (map sm_id) (schema_result unit_distance (Some (1, 0)) (Some 1)
     [example_chunk 101 1 10 1 (Some (1, 0)) 9, example_chunk 100 1 10 0 (Some (1, 0)) 3]) = Inr [101]"
proof -
  let ?early = "example_chunk 100 1 10 0 (Some (1, 0)) 3"
  let ?late = "example_chunk 101 1 10 1 (Some (1, 0)) 9"
  have first: "schema_admits unit_distance tied_chunks (Some (1, 0)) (Some (1/2)) (Some 1)
      ([] @ ?early # ?late # []) \<and>
    similarity unit_distance (Some (1, 0)) ?early = similarity unit_distance (Some (1, 0)) ?late"
    by (simp add: schema_admits_def ordered_by_def example_defs match_defs)
  from match_documents_ties_open
    [of unit_distance tied_chunks "Some (1, 0)" "Some (1/2)" "Some 1", THEN conjunct1, rule_format,
      OF first]
  have "schema_admits unit_distance tied_chunks (Some (1, 0)) (Some (1/2)) (Some 1) [?late, ?early]"
    by simp
  moreover from first
  have "schema_admits unit_distance tied_chunks (Some (1, 0)) (Some (1/2)) (Some 1) [?early, ?late]"
    by simp
  moreover have "map_sum id (map sm_id) (schema_result unit_distance (Some (1, 0)) (Some 1)
      [?early, ?late]) = Inr [100]"
    and "map_sum id (map sm_id) (schema_result unit_distance (Some (1, 0)) (Some 1)
      [?late, ?early]) = Inr [101]"
    by (simp_all add: schema_result_def example_defs match_defs)
  ultimately show ?thesis
    by blast
qed

section \<open>The two definitions compared\<close>

lemma unique_key_filter:
  "distinct (map key xs) \<Longrightarrow> x \<in> set (map key xs) \<Longrightarrow> \<exists>y. filter (\<lambda>y. x = key y) xs = [y]"
proof (induction xs)
  case Nil
  then show ?case by simp
next
  case (Cons a xs)
  show ?case
  proof (cases "x = key a")
    case True
    with Cons.prems have "filter (\<lambda>y. x = key y) xs = []"
      by (auto simp: filter_empty_conv)
    with True show ?thesis by simp
  next
    case False
    with Cons show ?thesis by auto
  qed
qed

lemma concat_singletons:
  "(\<And>x. x \<in> set xs \<Longrightarrow> f x = [g x]) \<Longrightarrow> concat (map f xs) = map g xs"
  by (induction xs) simp_all

lemma join_is_map:
  assumes pk: "distinct (map d_id (documents db))" and fk: "chunks_have_documents db"
  shows "chunks_join_documents db =
    map (\<lambda>dc. (dc, hd (filter (\<lambda>d. dc_document_id dc = d_id d) (documents db)))) (document_chunks db)"
proof -
  have one: "map (Pair dc) (filter (\<lambda>d. dc_document_id dc = d_id d) (documents db)) =
      [(dc, hd (filter (\<lambda>d. dc_document_id dc = d_id d) (documents db)))]"
    if "dc \<in> set (document_chunks db)" for dc
  proof -
    from fk that have "dc_document_id dc \<in> set (map d_id (documents db))"
      by (simp add: chunks_have_documents_def list_all_iff)
    from unique_key_filter [OF pk this] obtain d where
      "filter (\<lambda>d. dc_document_id dc = d_id d) (documents db) = [d]" ..
    then show ?thesis by simp
  qed
  show ?thesis
    unfolding chunks_join_documents_def by (rule concat_singletons) (rule one)
qed

lemma results_on_common_columns:
  "map_sum id (map (\<lambda>r. (mm_id r, mm_similarity r))) (migration_result cd q k rows) =
   map_sum id (map (\<lambda>r. (sm_id r, sm_similarity r))) (schema_result cd q k (map fst rows))"
  by (simp add: migration_result_def schema_result_def limit_map sum.map_comp comp_def id_def
      migration_select_def schema_select_def case_prod_beta)

text \<open>
  Claim C9, as amended. On a state in which document ids are unique, every chunk's
  document exists and every chunk is filed under the \<open>org_id\<close> of its document, the two
  definitions of \<open>match_documents\<close> admit the same results for every non-NULL tenant
  filter, query vector, threshold and count: every order of chunks that the schema
  script's definition admits is the order of the chunks in rows that the migration's
  definition admits, and the other way round, and for one order of chunks both return the
  same chunk ids with the same similarity values, or fail together on a negative count.
  Which of the admitted orders a call returns is open in both, so two calls need not
  agree on rows at equal distance. Chunks without an embedding need no exclusion: neither
  definition returns them.
\<close>

theorem match_documents_versions_admit_same:
  fixes db :: "'v database"
  assumes pk: "distinct (map d_id (documents db))"
    and fk: "chunks_have_documents db"
    and same_org: "\<forall>dc \<in> set (document_chunks db). \<forall>d \<in> set (documents db).
        dc_document_id dc = d_id d \<longrightarrow> d_org_id d = dc_org_id dc"
  shows
    "(\<forall>rows. schema_admits cd db q th (Some t) rows \<longrightarrow>
        (\<exists>rows'. migration_admits cd db q th (Some t) rows' \<and> map fst rows' = rows)) \<and>
     (\<forall>rows'. migration_admits cd db q th (Some t) rows' \<longrightarrow>
        schema_admits cd db q th (Some t) (map fst rows')) \<and>
     (\<forall>rows'. map_sum id (map (\<lambda>r. (mm_id r, mm_similarity r))) (migration_result cd q k rows') =
        map_sum id (map (\<lambda>r. (sm_id r, sm_similarity r))) (schema_result cd q k (map fst rows')))"
proof -
  define doc where "doc dc = hd (filter (\<lambda>d. dc_document_id dc = d_id d) (documents db))"
    for dc :: "'v document_chunk"
  define g where "g dc = (dc, doc dc)" for dc :: "'v document_chunk"
  let ?dist = "\<lambda>dc :: 'v document_chunk. cosine_distance cd (dc_embedding dc) q"
  let ?selected = "filter (\<lambda>dc. is_true (schema_where cd q th (Some t) dc)) (document_chunks db)"
  have join: "chunks_join_documents db = map g (document_chunks db)"
    using join_is_map [OF pk fk] by (simp add: g_def doc_def)
  have doc: "doc dc \<in> set (documents db) \<and> dc_document_id dc = d_id (doc dc)"
    if "dc \<in> set (document_chunks db)" for dc
  proof -
    from that have "g dc \<in> set (chunks_join_documents db)"
      by (simp add: join)
    then show ?thesis
      by (simp add: set_chunks_join_documents g_def)
  qed
  have where_eq: "is_true (migration_where cd q th (Some t) (g dc)) = is_true (schema_where cd q th (Some t) dc)"
    if "dc \<in> set (document_chunks db)" for dc
  proof -
    from doc [OF that] same_org that have "d_org_id (doc dc) = dc_org_id dc"
      by blast
    then show ?thesis
      by (auto simp: g_def migration_where_true schema_where_true)
  qed
  have selected: "filter (\<lambda>row. is_true (migration_where cd q th (Some t) row)) (chunks_join_documents db) =
      map g ?selected"
    using where_eq by (simp add: join filter_map comp_def cong: filter_cong)
  have fst_g: "map fst (map g rows) = rows" for rows
    by (simp add: g_def comp_def)
  show ?thesis
  proof (intro conjI allI impI)
    fix rows
    assume "schema_admits cd db q th (Some t) rows"
    then have "ordered_by (\<lambda>dc. cosine_distance cd (dc_embedding (fst (g dc))) q) ?selected rows"
      by (simp add: schema_admits_def g_def)
    then have "migration_admits cd db q th (Some t) (map g rows)"
      unfolding migration_admits_def selected by (rule ordered_by_map)
    with fst_g show "\<exists>rows'. migration_admits cd db q th (Some t) rows' \<and> map fst rows' = rows"
      by blast
  next
    fix rows'
    assume "migration_admits cd db q th (Some t) rows'"
    then have perm: "mset rows' = mset (map g ?selected)"
      and sorted: "sorted (map (\<lambda>row. nulls_last (cosine_distance cd (dc_embedding (fst row)) q)) rows')"
      by (simp_all add: migration_admits_def selected ordered_by_def)
    from perm have "mset (map fst rows') = mset (map fst (map g ?selected))"
      by (metis mset_map)
    then have "mset (map fst rows') = mset ?selected"
      by (simp only: fst_g)
    with sorted show "schema_admits cd db q th (Some t) (map fst rows')"
      by (simp add: schema_admits_def ordered_by_def comp_def)
  next
    fix rows'
    show "map_sum id (map (\<lambda>r. (mm_id r, mm_similarity r))) (migration_result cd q k rows') =
        map_sum id (map (\<lambda>r. (sm_id r, sm_similarity r))) (schema_result cd q k (map fst rows'))"
      by (rule results_on_common_columns)
  qed
qed

text \<open>
  The claim as stated has the two definitions return the same ids in the same order on
  every state with embedded chunks. The schema script's definition filters on the chunk's
  own \<open>org_id\<close>, the migration's on the \<open>org_id\<close> of the joined document, and no constraint
  ties the two columns: on a well-keyed state with an embedded chunk filed under tenant 1
  whose document belongs to tenant 2, a search for tenant 1 finds the chunk in one
  definition and selects nothing in the other. And on a state that meets all three
  conditions but has two chunks at the same distance, one definition admits the one order
  and the other the opposite order, which under a count of 1 are different chunks.
\<close>

theorem match_documents_versions_counterexample:
  "match_documents_schema unit_distance mixed_owner (Some (1, 0)) (Some (1/2)) (Some 5) (Some 1)
     = Inr [schema_select unit_distance (Some (1, 0)) (example_chunk 100 1 20 0 (Some (1, 0)) 5)] \<and>
   match_documents_migration unit_distance mixed_owner (Some (1, 0)) (Some (1/2)) (Some 5) (Some 1)
     = Inr [] \<and>
   schema_admits unit_distance mixed_owner (Some (1, 0)) (Some (1/2)) (Some 1)
     [example_chunk 100 1 20 0 (Some (1, 0)) 5] \<and>
   filter (\<lambda>row. is_true (migration_where unit_distance (Some (1, 0)) (Some (1/2)) (Some 1) row))
     (chunks_join_documents mixed_owner) = [] \<and>
   dc_embedding (example_chunk 100 1 20 0 (Some (1, 0)) 5) \<noteq> None \<and>
   distinct (map d_id (documents mixed_owner)) \<and> chunks_have_documents mixed_owner \<and>
   schema_admits unit_distance tied_chunks (Some (1, 0)) (Some (1/2)) (Some 1)
     [example_chunk 101 1 10 1 (Some (1, 0)) 9, example_chunk 100 1 10 0 (Some (1, 0)) 3] \<and>
   migration_admits unit_distance tied_chunks (Some (1, 0)) (Some (1/2)) (Some 1)
     [(example_chunk 100 1 10 0 (Some (1, 0)) 3, example_document 10 1 ''tapu.pdf''),
      (example_chunk 101 1 10 1 (Some (1, 0)) 9, example_document 10 1 ''tapu.pdf'')] \<and>
   map_sum id (map sm_id) (schema_result unit_distance (Some (1, 0)) (Some 1)
     [example_chunk 101 1 10 1 (Some (1, 0)) 9, example_chunk 100 1 10 0 (Some (1, 0)) 3])
     = Inr [101] \<and>
   map_sum id (map mm_id) (migration_result unit_distance (Some (1, 0)) (Some 1)
     [(example_chunk 100 1 10 0 (Some (1, 0)) 3, example_document 10 1 ''tapu.pdf''),
      (example_chunk 101 1 10 1 (Some (1, 0)) 9, example_document 10 1 ''tapu.pdf'')])
     = Inr [100]"
  by (simp add: schema_admits_def migration_admits_def ordered_by_def schema_result_def
      migration_result_def example_defs match_defs chunks_have_documents_def)

text \<open>
  The two-tenant example satisfies the three conditions; an order admitted by the schema
  script's definition is matched by rows the migration's definition admits.
\<close>

theorem match_documents_versions_admit_same_witness:
  "distinct (map d_id (documents two_tenants)) \<and>
   chunks_have_documents two_tenants \<and>
   map (\<lambda>dc. (dc_document_id dc, dc_org_id dc)) (document_chunks two_tenants)
     = [(10, 1), (10, 1), (10, 1), (20, 2)] \<and>
   map (\<lambda>d. (d_id d, d_org_id d)) (documents two_tenants) = [(10, 1), (20, 2)] \<and>
   schema_admits unit_distance two_tenants (Some (1, 0)) (Some (1/2)) (Some 1)
     [example_chunk 101 1 10 1 (Some (1, 0)) 6, example_chunk 100 1 10 0 (Some (3/5, 4/5)) 5] \<and>
   (\<exists>rows'. migration_admits unit_distance two_tenants (Some (1, 0)) (Some (1/2)) (Some 1) rows' \<and>
      map fst rows' =
        [example_chunk 101 1 10 1 (Some (1, 0)) 6, example_chunk 100 1 10 0 (Some (3/5, 4/5)) 5] \<and>
      map_sum id (map (\<lambda>r. (mm_id r, mm_similarity r)))
        (migration_result unit_distance (Some (1, 0)) (Some 5) rows')
      = Inr [(101, Some 1), (100, Some (3/5))])"
proof -
  let ?rows = "[example_chunk 101 1 10 1 (Some (1, 0)) 6, example_chunk 100 1 10 0 (Some (3/5, 4/5)) 5]"
  have pk: "distinct (map d_id (documents two_tenants))"
    by (simp add: example_defs)
  have fk: "chunks_have_documents two_tenants"
    by (simp add: example_defs chunks_have_documents_def)
  have same_org: "\<forall>dc \<in> set (document_chunks two_tenants). \<forall>d \<in> set (documents two_tenants).
      dc_document_id dc = d_id d \<longrightarrow> d_org_id d = dc_org_id dc"
    by (simp add: example_defs)
  note same = match_documents_versions_admit_same
    [OF pk fk same_org, of unit_distance "Some (1, 0)" "Some (1/2)" 1 "Some 5"]
  have admitted: "schema_admits unit_distance two_tenants (Some (1, 0)) (Some (1/2)) (Some 1) ?rows"
    by (simp add: schema_admits_def ordered_by_def example_defs match_defs)
  from same [THEN conjunct1, rule_format, OF admitted] obtain rows' where
    rows': "migration_admits unit_distance two_tenants (Some (1, 0)) (Some (1/2)) (Some 1) rows'"
      "map fst rows' = ?rows"
    by (elim exE conjE)
  have "map_sum id (map (\<lambda>r. (mm_id r, mm_similarity r)))
        (migration_result unit_distance (Some (1, 0)) (Some 5) rows') =
      map_sum id (map (\<lambda>r. (sm_id r, sm_similarity r)))
        (schema_result unit_distance (Some (1, 0)) (Some 5) (map fst rows'))"
    by (rule same [THEN conjunct2, THEN conjunct2, rule_format])
  also have "\<dots> = Inr [(101, Some 1), (100, Some (3/5))]"
    unfolding rows'(2) by (simp add: schema_result_def example_defs match_defs)
  finally have result: "map_sum id (map (\<lambda>r. (mm_id r, mm_similarity r)))
        (migration_result unit_distance (Some (1, 0)) (Some 5) rows') =
      Inr [(101, Some 1), (100, Some (3/5))]" .
  have chunks: "map (\<lambda>dc. (dc_document_id dc, dc_org_id dc)) (document_chunks two_tenants)
     = [(10, 1), (10, 1), (10, 1), (20, 2)]"
    and docs: "map (\<lambda>d. (d_id d, d_org_id d)) (documents two_tenants) = [(10, 1), (20, 2)]"
    by (simp_all add: example_defs)
  from rows' result have "\<exists>rows'. migration_admits unit_distance two_tenants (Some (1, 0)) (Some (1/2)) (Some 1) rows' \<and>
      map fst rows' = ?rows \<and>
      map_sum id (map (\<lambda>r. (mm_id r, mm_similarity r)))
        (migration_result unit_distance (Some (1, 0)) (Some 5) rows')
      = Inr [(101, Some 1), (100, Some (3/5))]"
    by (intro exI [of _ rows'] conjI)
  with pk fk chunks docs admitted show ?thesis
    by (intro conjI)
qed

section \<open>The answerer's abstention\<close>

lemma migration_rows_empty:
  assumes "\<forall>dc \<in> set (document_chunks db). \<forall>e. dc_embedding dc = Some e \<longrightarrow> 1 - cd e v \<le> t"
  shows "migration_rows cd db (Some v) (Some t) f = []"
proof -
  have "row \<notin> set (migration_rows cd db (Some v) (Some t) f)" for row
  proof
    assume "row \<in> set (migration_rows cd db (Some v) (Some t) f)"
    from migration_rows_distance [OF this] assms show False
      by fastforce
  qed
  then show ?thesis
    by (cases "migration_rows cd db (Some v) (Some t) f") auto
qed

text \<open>
  Claim C2. Whenever retrieval for the question returns no row, and in particular
  whenever no stored chunk has a similarity to the embedded question above the
  threshold, \<open>answer\<close> returns the fixed refusal statement and an empty source list. The
  generation provider is an arbitrary argument of the statement: the result does not
  depend on it.
\<close>

theorem answer_abstains_when_nothing_retrieved:
  "(match_documents_migration cd db (Some (embed_query question)) (Some threshold) (Some K) (Some tenant)
      = Inr [] \<longrightarrow>
    answer cd embed_query generate threshold K N db tenant question conversation_history
      = Inr (refusal_statement, [])) \<and>
   (0 \<le> K \<and>
    (\<forall>dc \<in> set (document_chunks db). \<forall>e. dc_embedding dc = Some e \<longrightarrow>
       1 - cd e (embed_query question) \<le> threshold) \<longrightarrow>
    answer cd embed_query generate threshold K N db tenant question conversation_history
      = Inr (refusal_statement, []))"
proof (intro conjI impI)
  assume "match_documents_migration cd db (Some (embed_query question)) (Some threshold) (Some K)
      (Some tenant) = Inr []"
  then show "answer cd embed_query generate threshold K N db tenant question conversation_history
      = Inr (refusal_statement, [])"
    by (simp add: answer_def)
next
  assume a: "0 \<le> K \<and>
    (\<forall>dc \<in> set (document_chunks db). \<forall>e. dc_embedding dc = Some e \<longrightarrow>
       1 - cd e (embed_query question) \<le> threshold)"
  then have "migration_rows cd db (Some (embed_query question)) (Some threshold) (Some tenant) = []"
    by (intro migration_rows_empty) blast
  with a have "match_documents_migration cd db (Some (embed_query question)) (Some threshold) (Some K)
      (Some tenant) = Inr []"
    by (simp add: match_documents_migration_def limit_def)
  then show "answer cd embed_query generate threshold K N db tenant question conversation_history
      = Inr (refusal_statement, [])"
    by (simp add: answer_def)
qed

text \<open>
  On the two-tenant example no chunk is within 0.9 of the query \<open>(0, 1)\<close>, and the refusal
  is returned although the provider would have produced a text; for the query \<open>(1, 0)\<close>
  tenant 1 has a chunk above the threshold, and the provider's text is returned with
  sources.
\<close>

theorem answer_abstains_when_nothing_retrieved_witness:
  "answer unit_distance (\<lambda>_. (0, 1)) (\<lambda>_ _ _. Some ''fabricated'') (9/10) 5 3 two_tenants 1
     ''soru'' ([] :: string list) = Inr (refusal_statement, []) \<and>
   (\<exists>sources. answer unit_distance (\<lambda>_. (1, 0)) (\<lambda>_ _ _. Some ''generated'') (9/10) 5 3 two_tenants 1
     ''soru'' ([] :: string list) = Inr (''generated'', sources) \<and> sources \<noteq> [])"
proof -
  have below: "(0::int) \<le> 5 \<and>
    (\<forall>dc \<in> set (document_chunks two_tenants). \<forall>e. dc_embedding dc = Some e \<longrightarrow>
       1 - unit_distance e ((\<lambda>_. (0, 1)) ''soru'') \<le> 9/10)"
    by (simp add: example_defs)
  have "answer unit_distance (\<lambda>_. (0, 1)) (\<lambda>_ _ _. Some ''fabricated'') (9/10) 5 3 two_tenants 1
     ''soru'' ([] :: string list) = Inr (refusal_statement, [])"
    using answer_abstains_when_nothing_retrieved
      [of unit_distance two_tenants "\<lambda>_. (0, 1)" "''soru''" "9/10" 5 1 "\<lambda>_ _ _. Some ''fabricated''" 3
        "[] :: string list", THEN conjunct2, THEN mp, OF below] .
  moreover have "\<exists>sources. answer unit_distance (\<lambda>_. (1, 0)) (\<lambda>_ _ _. Some ''generated'') (9/10) 5 3 two_tenants 1
     ''soru'' ([] :: string list) = Inr (''generated'', sources) \<and> sources \<noteq> []"
    by (simp add: answer_def example_defs match_defs)
  ultimately show ?thesis
    by blast
qed

section \<open>The feedback ledger\<close>

text \<open>
  Claim C5. A feedback submission whose score is outside [1,5] is refused by the table's
  \<open>CHECK\<close> and \<open>record_feedback\<close> reports \<open>InvalidFeedback\<close>; no new state is returned, so
  no row is inserted. A submission with a score inside [1,5], for an existing session and
  under a fresh row id, appends exactly its row. Whenever \<open>record_feedback\<close> succeeds the
  score is inside [1,5] and the new state is the old one with one row appended to
  \<open>chat_feedback\<close>: earlier rows are neither changed nor removed.
\<close>

theorem record_feedback_score_range:
  "((score < 1 \<or> 5 < score) \<longrightarrow>
      insert_chat_feedback new_id now
        \<lparr>fv_session_id = Some session_id, fv_message_id = message_id, fv_score = Some score,
         fv_comment = comment\<rparr> db = Inl check_violation \<and>
      record_feedback new_id now session_id message_id score comment db = Inl InvalidFeedback) \<and>
   ((1 \<le> score \<and> score \<le> 5 \<and> new_id \<notin> set (map fb_id (chat_feedback db)) \<and>
     session_id \<in> set (map cs_id (chat_sessions db))) \<longrightarrow>
      record_feedback new_id now session_id message_id score comment db =
        Inr (db\<lparr>chat_feedback := chat_feedback db @
           [\<lparr>fb_id = new_id, fb_session_id = Some session_id, fb_message_id = message_id,
             fb_score = score, fb_comment = comment, fb_created_at = now\<rparr>]\<rparr>)) \<and>
   (\<forall>db'. record_feedback new_id now session_id message_id score comment db = Inr db' \<longrightarrow>
      1 \<le> score \<and> score \<le> 5 \<and>
      (\<exists>row. fb_score row = score \<and> db' = db\<lparr>chat_feedback := chat_feedback db @ [row]\<rparr>))"
proof (intro conjI allI impI)
  fix db'
  assume "record_feedback new_id now session_id message_id score comment db = Inr db'"
  then have ok: "1 \<le> score \<and> score \<le> 5"
    and db': "db' = db\<lparr>chat_feedback := chat_feedback db @
           [\<lparr>fb_id = new_id, fb_session_id = Some session_id, fb_message_id = message_id,
             fb_score = score, fb_comment = comment, fb_created_at = now\<rparr>]\<rparr>"
    by (auto simp: record_feedback_def insert_chat_feedback_def split: if_splits)
  from ok show "1 \<le> score" and "score \<le> 5"
    by simp_all
  from db' show "\<exists>row. fb_score row = score \<and> db' = db\<lparr>chat_feedback := chat_feedback db @ [row]\<rparr>"
    by (intro exI [of _ "\<lparr>fb_id = new_id, fb_session_id = Some session_id, fb_message_id = message_id,
             fb_score = score, fb_comment = comment, fb_created_at = now\<rparr>"]) simp
qed (auto simp: record_feedback_def insert_chat_feedback_def)

text \<open>Scores 6 and 0 are refused and score 5 is recorded, for session 7 of the example.\<close>

theorem record_feedback_score_range_witness:
  "record_feedback 1 50 7 None 6 (Some ''iyi'') two_tenants = Inl InvalidFeedback \<and>
   record_feedback 1 50 7 None 0 (Some ''iyi'') two_tenants = Inl InvalidFeedback \<and>
   record_feedback 1 50 7 None 5 (Some ''iyi'') two_tenants =
     Inr (two_tenants\<lparr>chat_feedback :=
        [\<lparr>fb_id = 1, fb_session_id = Some 7, fb_message_id = None,
          fb_score = 5, fb_comment = Some ''iyi'', fb_created_at = 50\<rparr>]\<rparr>)"
proof -
  note range = record_feedback_score_range [of _ 1 50 7 None "Some ''iyi''" two_tenants]
  have "(6::int) < 1 \<or> 5 < (6::int)" and "(0::int) < 1 \<or> 5 < (0::int)"
    by simp_all
  with range [of 6] range [of 0]
  have "record_feedback 1 50 7 None 6 (Some ''iyi'') two_tenants = Inl InvalidFeedback"
    and "record_feedback 1 50 7 None 0 (Some ''iyi'') two_tenants = Inl InvalidFeedback"
    by blast+
  moreover have "1 \<le> (5::int) \<and> (5::int) \<le> 5 \<and> 1 \<notin> set (map fb_id (chat_feedback two_tenants)) \<and>
     7 \<in> set (map cs_id (chat_sessions two_tenants))"
    by (simp add: example_defs)
  with range [of 5] have "record_feedback 1 50 7 None 5 (Some ''iyi'') two_tenants =
     Inr (two_tenants\<lparr>chat_feedback := chat_feedback two_tenants @
        [\<lparr>fb_id = 1, fb_session_id = Some 7, fb_message_id = None,
          fb_score = 5, fb_comment = Some ''iyi'', fb_created_at = 50\<rparr>]\<rparr>)"
    by blast
  then have "record_feedback 1 50 7 None 5 (Some ''iyi'') two_tenants =
     Inr (two_tenants\<lparr>chat_feedback :=
        [\<lparr>fb_id = 1, fb_session_id = Some 7, fb_message_id = None,
          fb_score = 5, fb_comment = Some ''iyi'', fb_created_at = 50\<rparr>]\<rparr>)"
    by (simp add: two_tenants_def)
  ultimately show ?thesis
    by blast
qed

section \<open>Deleting a document\<close>

lemma delete_document_tables:
  assumes "chunks_have_documents db"
  shows "documents (delete_document x db) = filter (\<lambda>d. d_id d \<noteq> x) (documents db)"
    and "document_chunks (delete_document x db) = filter (\<lambda>dc. dc_document_id dc \<noteq> x) (document_chunks db)"
proof -
  show "documents (delete_document x db) = filter (\<lambda>d. d_id d \<noteq> x) (documents db)"
    by (auto simp: delete_document_def intro!: filter_True [symmetric])
  show "document_chunks (delete_document x db) = filter (\<lambda>dc. dc_document_id dc \<noteq> x) (document_chunks db)"
    using assms
    by (auto simp: delete_document_def chunks_have_documents_def list_all_iff
        intro!: filter_True [symmetric])
qed

text \<open>
  Claim C6. Deleting a document is one statement whose result has neither the document
  row nor any chunk of that document: the chunks go with the row by the cascade, and
  every other row stays. On a state that satisfies the foreign key, the state after the
  delete satisfies it again, so every stored chunk has its document row, and both
  definitions of the search return only rows whose document is present, none of the
  deleted document. The model has no state between the removal of the chunks and of the
  document.
\<close>

theorem delete_document_cascades:
  assumes "chunks_have_documents db"
  shows "chunks_have_documents (delete_document x db) \<and>
    documents (delete_document x db) = filter (\<lambda>d. d_id d \<noteq> x) (documents db) \<and>
    document_chunks (delete_document x db)
      = filter (\<lambda>dc. dc_document_id dc \<noteq> x) (document_chunks db) \<and>
    (\<forall>out. match_documents_schema cd (delete_document x db) q th k f = Inr out \<longrightarrow>
       (\<forall>r \<in> set out. sm_document_id r \<noteq> x \<and>
          sm_document_id r \<in> set (map d_id (documents (delete_document x db))))) \<and>
    (\<forall>out. match_documents_migration cd (delete_document x db) q th k f = Inr out \<longrightarrow>
       (\<forall>r \<in> set out. mm_document_id r \<noteq> x \<and>
          mm_document_id r \<in> set (map d_id (documents (delete_document x db)))))"
proof (intro conjI allI impI ballI)
  note tables = delete_document_tables [OF assms, of x]
  show inv: "chunks_have_documents (delete_document x db)"
    using assms unfolding chunks_have_documents_def list_all_iff tables by auto
  show "documents (delete_document x db) = filter (\<lambda>d. d_id d \<noteq> x) (documents db)"
    and "document_chunks (delete_document x db)
      = filter (\<lambda>dc. dc_document_id dc \<noteq> x) (document_chunks db)"
    by (rule tables)+
  {
    fix out r
    assume out: "match_documents_schema cd (delete_document x db) q th k f = Inr out"
      and r: "r \<in> set out"
    from out obtain rows where
      lim: "limit k (schema_rows cd (delete_document x db) q th f) = Inr rows"
      and "out = map (schema_select cd q) rows"
      by (cases "limit k (schema_rows cd (delete_document x db) q th f)")
        (auto simp: match_documents_schema_def)
    with r obtain dc where dc: "dc \<in> set rows" and sel: "r = schema_select cd q dc"
      by auto
    from set_limit [OF lim] dc have "dc \<in> set (document_chunks (delete_document x db))"
      by (auto simp: set_schema_rows)
    then have "dc_document_id dc \<noteq> x"
      and "dc_document_id dc \<in> set (map d_id (documents (delete_document x db)))"
      using inv by (auto simp: tables(2) chunks_have_documents_def list_all_iff)
    then show "sm_document_id r \<noteq> x"
      and "sm_document_id r \<in> set (map d_id (documents (delete_document x db)))"
      by (simp_all add: sel schema_select_def)
  }
  {
    fix out r
    assume out: "match_documents_migration cd (delete_document x db) q th k f = Inr out"
      and r: "r \<in> set out"
    from out obtain rows where
      lim: "limit k (migration_rows cd (delete_document x db) q th f) = Inr rows"
      and "out = map (migration_select cd q) rows"
      by (cases "limit k (migration_rows cd (delete_document x db) q th f)")
        (auto simp: match_documents_migration_def)
    with r obtain row where row: "row \<in> set rows" and sel: "r = migration_select cd q row"
      by auto
    from set_limit [OF lim] row have "fst row \<in> set (document_chunks (delete_document x db))"
      by (auto simp: set_migration_rows)
    then have "dc_document_id (fst row) \<noteq> x"
      and "dc_document_id (fst row) \<in> set (map d_id (documents (delete_document x db)))"
      using inv by (auto simp: tables(2) chunks_have_documents_def list_all_iff)
    then show "mm_document_id r \<noteq> x"
      and "mm_document_id r \<in> set (map d_id (documents (delete_document x db)))"
      by (simp_all add: sel migration_select_def case_prod_beta)
  }
qed

text \<open>Deleting document 10 of the example removes its three chunks; tenant 1 then finds nothing.\<close>

theorem delete_document_cascades_witness:
  "chunks_have_documents two_tenants \<and>
   chunks_have_documents (delete_document 10 two_tenants) \<and>
   map d_id (documents (delete_document 10 two_tenants)) = [20] \<and>
   map dc_id (document_chunks two_tenants) = [100, 101, 102, 200] \<and>
   map dc_id (document_chunks (delete_document 10 two_tenants)) = [200] \<and>
   match_documents_schema unit_distance (delete_document 10 two_tenants) (Some (1, 0)) (Some (1/2))
     (Some 5) (Some 1) = Inr []"
proof -
  have inv: "chunks_have_documents two_tenants"
    by (simp add: example_defs chunks_have_documents_def)
  note del = delete_document_cascades [OF inv, of 10 unit_distance "Some (1, 0)" "Some (1/2)" "Some 5" "Some 1"]
  from del have "chunks_have_documents (delete_document 10 two_tenants)"
    by blast
  moreover from del have "documents (delete_document 10 two_tenants)
      = filter (\<lambda>d. d_id d \<noteq> 10) (documents two_tenants)"
    and "document_chunks (delete_document 10 two_tenants)
      = filter (\<lambda>dc. dc_document_id dc \<noteq> 10) (document_chunks two_tenants)"
    by blast+
  then have "map d_id (documents (delete_document 10 two_tenants)) = [20]"
    and "map dc_id (document_chunks (delete_document 10 two_tenants)) = [200]"
    by (simp_all add: example_defs)
  moreover have "map dc_id (document_chunks two_tenants) = [100, 101, 102, 200]"
    by (simp add: example_defs)
  moreover have "match_documents_schema unit_distance (delete_document 10 two_tenants) (Some (1, 0)) (Some (1/2))
     (Some 5) (Some 1) = Inr []"
    by (simp add: delete_document_def example_defs match_defs)
  ultimately show ?thesis
    using inv by blast
qed

section \<open>The status of a document\<close>

lemma documents_status_check_iff:
  "documents_status_check st \<longleftrightarrow> (\<forall>s. st = Some s \<longrightarrow> s \<in> set status_values)"
  by (cases st) (simp_all add: documents_status_check_def check_passes_def)

lemma insert_document_Inr:
  assumes "insert_document new_id now v db = Inr db'"
  shows "\<exists>d. db' = db\<lparr>documents := documents db @ [d]\<rparr> \<and> d_id d = new_id \<and>
    documents_status_check (d_status d) \<and>
    d_status d = (case dv_status v of DEFAULT \<Rightarrow> Some ''uploaded'' | VALUE x \<Rightarrow> x)"
  using assms
  by (auto simp: insert_document_def Let_def split: option.splits if_splits)

text \<open>
  Claim C7, as amended. On a state in which every status that is not NULL is one of
  \<open>uploaded\<close>, \<open>processing\<close>, \<open>indexed\<close>, \<open>failed\<close>, every insert and every status update that
  the table accepts, and every delete, leads to such a state again. A document created
  without an explicit status, with the required columns, a fresh id and an existing
  organisation, is accepted and has status \<open>uploaded\<close>.
\<close>

theorem documents_status_constraint:
  assumes "\<forall>d \<in> set (documents db). \<forall>s. d_status d = Some s \<longrightarrow> s \<in> set status_values"
  shows
    "(\<forall>db'. insert_document new_id now v db = Inr db' \<longrightarrow>
        (\<forall>d \<in> set (documents db'). \<forall>s. d_status d = Some s \<longrightarrow> s \<in> set status_values)) \<and>
     (\<forall>db'. update_document_status now x st db = Inr db' \<longrightarrow>
        (\<forall>d \<in> set (documents db'). \<forall>s. d_status d = Some s \<longrightarrow> s \<in> set status_values)) \<and>
     (\<forall>d \<in> set (documents (delete_document x db)). \<forall>s. d_status d = Some s \<longrightarrow> s \<in> set status_values) \<and>
     (dv_status v = DEFAULT \<and> dv_org_id v = Some org_id \<and> dv_storage_path v = Some spath \<and>
      dv_filename v = Some fname \<and> dv_mime_type v = Some mime \<and> dv_size_bytes v = Some sz \<and>
      new_id \<notin> set (map d_id (documents db)) \<and> org_id \<in> set (map o_id (orgs db)) \<longrightarrow>
        (\<exists>db'. insert_document new_id now v db = Inr db' \<and>
           map d_id (documents db') = map d_id (documents db) @ [new_id] \<and>
           map d_status (documents db') = map d_status (documents db) @ [Some ''uploaded'']))"
proof (intro conjI allI impI)
  fix db'
  assume "insert_document new_id now v db = Inr db'"
  from insert_document_Inr [OF this] obtain d where
    "db' = db\<lparr>documents := documents db @ [d]\<rparr>" and "documents_status_check (d_status d)"
    by blast
  with assms show "\<forall>d \<in> set (documents db'). \<forall>s. d_status d = Some s \<longrightarrow> s \<in> set status_values"
    by (auto simp: documents_status_check_iff)
next
  fix db'
  assume upd: "update_document_status now x st db = Inr db'"
  show "\<forall>d \<in> set (documents db'). \<forall>s. d_status d = Some s \<longrightarrow> s \<in> set status_values"
  proof (cases "x \<in> set (map d_id (documents db))")
    case True
    with upd have "documents_status_check st"
      and "documents db' = map (\<lambda>d. if d_id d = x then d\<lparr>d_status := st, d_updated_at := Some now\<rparr> else d)
               (documents db)"
      by (auto simp: update_document_status_def split: if_splits)
    with assms show ?thesis
      by (auto simp: documents_status_check_iff)
  next
    case False
    with upd have "documents db' = map (\<lambda>d. if d_id d = x then d\<lparr>d_status := st, d_updated_at := Some now\<rparr> else d)
               (documents db)"
      by (auto simp: update_document_status_def)
    with False assms show ?thesis
      by auto
  qed
next
  show "\<forall>d \<in> set (documents (delete_document x db)). \<forall>s. d_status d = Some s \<longrightarrow> s \<in> set status_values"
    using assms by (auto simp: delete_document_def)
next
  assume "dv_status v = DEFAULT \<and> dv_org_id v = Some org_id \<and> dv_storage_path v = Some spath \<and>
      dv_filename v = Some fname \<and> dv_mime_type v = Some mime \<and> dv_size_bytes v = Some sz \<and>
      new_id \<notin> set (map d_id (documents db)) \<and> org_id \<in> set (map o_id (orgs db))"
  then show "\<exists>db'. insert_document new_id now v db = Inr db' \<and>
           map d_id (documents db') = map d_id (documents db) @ [new_id] \<and>
           map d_status (documents db') = map d_status (documents db) @ [Some ''uploaded'']"
    by (simp add: insert_document_def Let_def documents_status_check_def check_passes_def
        status_values_def)
qed

text \<open>
  The claim as stated gives every newly created document the status \<open>uploaded\<close>. That is
  the column's default, used only when the insert leaves the column out: an insert that
  names another of the four values is accepted with that value.
\<close>

theorem documents_status_explicit_counterexample:
  "insert_document 30 9
     \<lparr>dv_org_id = Some 1, dv_uploaded_by = None, dv_storage_bucket = DEFAULT,
      dv_storage_path = Some ''a.pdf'', dv_filename = Some ''a.pdf'',
      dv_mime_type = Some ''application/pdf'', dv_size_bytes = Some 10,
      dv_status = VALUE (Some ''indexed''), dv_error_message = None\<rparr> two_tenants =
   Inr (two_tenants\<lparr>documents := documents two_tenants @
     [\<lparr>d_id = 30, d_org_id = 1, d_uploaded_by = None, d_storage_bucket = Some ''docs'',
       d_storage_path = ''a.pdf'', d_filename = ''a.pdf'', d_mime_type = ''application/pdf'',
       d_size_bytes = 10, d_status = Some ''indexed'', d_error_message = None,
       d_created_at = Some 9, d_updated_at = Some 9\<rparr>]\<rparr>) \<and>
   ''indexed'' \<noteq> ''uploaded''"
  by (simp add: insert_document_def Let_def documents_status_check_def check_passes_def
      status_values_def example_defs)

text \<open>
  On the example: a document inserted with the default, an update to \<open>failed\<close>, and an
  update to a fifth value, which the \<open>CHECK\<close> refuses.
\<close>

theorem documents_status_constraint_witness:
  "(\<exists>db'. insert_document 30 9
       \<lparr>dv_org_id = Some 1, dv_uploaded_by = None, dv_storage_bucket = DEFAULT,
        dv_storage_path = Some ''a.pdf'', dv_filename = Some ''a.pdf'',
        dv_mime_type = Some ''application/pdf'', dv_size_bytes = Some 10,
        dv_status = DEFAULT, dv_error_message = None\<rparr> two_tenants = Inr db' \<and>
      map d_id (documents db') = [10, 20, 30] \<and>
      map d_status (documents db') = [Some ''indexed'', Some ''indexed'', Some ''uploaded'']) \<and>
   (\<exists>db'. update_document_status 9 10 (Some ''failed'') two_tenants = Inr db' \<and>
      map d_status (documents db') = [Some ''failed'', Some ''indexed'']) \<and>
   update_document_status 9 10 (Some ''done'') two_tenants = Inl check_violation"
proof -
  let ?v = "\<lparr>dv_org_id = Some 1, dv_uploaded_by = None, dv_storage_bucket = DEFAULT,
        dv_storage_path = Some ''a.pdf'', dv_filename = Some ''a.pdf'',
        dv_mime_type = Some ''application/pdf'', dv_size_bytes = Some 10,
        dv_status = DEFAULT, dv_error_message = None\<rparr>"
  have inv: "\<forall>d \<in> set (documents two_tenants). \<forall>s. d_status d = Some s \<longrightarrow> s \<in> set status_values"
    by (simp add: example_defs status_values_def)
  have pre: "dv_status ?v = DEFAULT \<and> dv_org_id ?v = Some 1 \<and> dv_storage_path ?v = Some ''a.pdf'' \<and>
      dv_filename ?v = Some ''a.pdf'' \<and> dv_mime_type ?v = Some ''application/pdf'' \<and>
      dv_size_bytes ?v = Some 10 \<and>
      30 \<notin> set (map d_id (documents two_tenants)) \<and> 1 \<in> set (map o_id (orgs two_tenants))"
    by (simp add: example_defs)
  have "\<exists>db'. insert_document 30 9 ?v two_tenants = Inr db' \<and>
      map d_id (documents db') = map d_id (documents two_tenants) @ [30] \<and>
      map d_status (documents db') = map d_status (documents two_tenants) @ [Some ''uploaded'']"
    using documents_status_constraint [OF inv, of 30 9 ?v 0 None 1 "''a.pdf''" "''a.pdf''"
        "''application/pdf''" 10, THEN conjunct2, THEN conjunct2, THEN conjunct2, THEN mp, OF pre] .
  then have "\<exists>db'. insert_document 30 9 ?v two_tenants = Inr db' \<and>
      map d_id (documents db') = [10, 20, 30] \<and>
      map d_status (documents db') = [Some ''indexed'', Some ''indexed'', Some ''uploaded'']"
    by (simp add: example_defs)
  moreover have "\<exists>db'. update_document_status 9 10 (Some ''failed'') two_tenants = Inr db' \<and>
      map d_status (documents db') = [Some ''failed'', Some ''indexed'']"
    by (simp add: update_document_status_def documents_status_check_def check_passes_def
        status_values_def example_defs)
  moreover have "update_document_status 9 10 (Some ''done'') two_tenants = Inl check_violation"
    by (simp add: update_document_status_def documents_status_check_def check_passes_def
        status_values_def example_defs)
  ultimately show ?thesis
    by blast
qed

text \<open>
  The column has the \<open>CHECK\<close> but, unlike \<open>chat_messages.role\<close> and \<open>chat_feedback.score\<close>, no
  \<open>NOT NULL\<close>, and a \<open>CHECK\<close> whose condition is unknown passes: an insert and an update that
  set the status to NULL are both accepted.
\<close>

lemma documents_status_null_accepted:
  "insert_document 30 9
     \<lparr>dv_org_id = Some 1, dv_uploaded_by = None, dv_storage_bucket = DEFAULT,
      dv_storage_path = Some ''a.pdf'', dv_filename = Some ''a.pdf'',
      dv_mime_type = Some ''application/pdf'', dv_size_bytes = Some 10,
      dv_status = VALUE None, dv_error_message = None\<rparr> two_tenants =
   Inr (two_tenants\<lparr>documents := documents two_tenants @
     [\<lparr>d_id = 30, d_org_id = 1, d_uploaded_by = None, d_storage_bucket = Some ''docs'',
       d_storage_path = ''a.pdf'', d_filename = ''a.pdf'', d_mime_type = ''application/pdf'',
       d_size_bytes = 10, d_status = None, d_error_message = None,
       d_created_at = Some 9, d_updated_at = Some 9\<rparr>]\<rparr>) \<and>
   update_document_status 9 10 None two_tenants =
   Inr (two_tenants\<lparr>documents :=
     [(example_document 10 1 ''tapu.pdf'')\<lparr>d_status := None, d_updated_at := Some 9\<rparr>,
      example_document 20 2 ''kadastro.pdf'']\<rparr>)"
  by (simp add: insert_document_def Let_def update_document_status_def documents_status_check_def
      check_passes_def status_values_def example_defs)

section \<open>A failed request on the chat page\<close>




end
